theory Spec2Isabelle
  imports Complex_Main "HOL-Library.AList" "HOL-Library.Char_ord" "HOL-Library.List_Lexorder"
begin

section \<open>JavaScript values used by the relay\<close>

text \<open>
  A JavaScript \<^verbatim>\<open>Error\<close> is its message.  A value of type \<^verbatim>\<open>string | undefined\<close> is a
  \<^typ>\<open>string option\<close>; JavaScript treats both \<^verbatim>\<open>undefined\<close> and the empty string as false,
  which is what \<open>avail\<close> computes: it returns the string when the test \<^verbatim>\<open>if (x)\<close> succeeds.
\<close>

datatype jserror = Error (msg: string)

definition avail :: "string option \<Rightarrow> string option" where
  "avail v = (case v of None \<Rightarrow> None | Some s \<Rightarrow> if s = [] then None else Some s)"

definition truthy :: "string option \<Rightarrow> bool" where
  "truthy v = (avail v \<noteq> None)"

definition flag :: "bool option \<Rightarrow> bool" where
  "flag v = (case v of None \<Rightarrow> False | Some b \<Rightarrow> b)"

text \<open>
  A file path is kept as the pair of its directory and its entry name:
  \<^verbatim>\<open>path.join(dir, name)\<close> is \<open>(dir, name)\<close>, \<^verbatim>\<open>path.basename\<close> is the second component.
  This is what Node's \<^verbatim>\<open>path\<close> module computes for an entry name without a separator.
  \<open>path_str\<close> is the text of the path, as it appears in messages.
\<close>

type_synonym path = "string \<times> string"

definition basename :: "path \<Rightarrow> string" where
  "basename p = snd p"

definition path_str :: "path \<Rightarrow> string" where
  "path_str p = fst p @ ''/'' @ snd p"

text \<open>
  \<open>relativeToRoot p\<close> is \<^verbatim>\<open>path.relative(path.join(path.dirname(p), ".."), p)\<close>: the last
  component of the directory, then the entry name.
\<close>

definition relativeToRoot :: "path \<Rightarrow> string" where
  "relativeToRoot p = rev (takeWhile (\<lambda>c. c \<noteq> CHR ''/'') (rev (fst p))) @ ''/'' @ snd p"

section \<open>The disk\<close>

text \<open>
  The disk maps the path of a directory to its entries, in the order in which
  \<^verbatim>\<open>readdir\<close> enumerates them.  An entry is a regular file with its bytes or a
  sub-directory.  A directory path that is not a key does not exist.  A rename, an unlink
  or a write fails where the directory or the file it needs is missing, or where a
  sub-directory stands in the place of the file; a new entry is enumerated last.  A
  sub-directory holds nothing, so the write of a name with a separator in it (which
  \<^verbatim>\<open>path.join\<close> reads as a file of a sub-directory) fails.
\<close>

datatype node = File string | Folder

type_synonym listing = "(string \<times> node) list"
type_synonym filesystem = "(string \<times> listing) list"

definition isDirectory :: "node \<Rightarrow> bool" where
  "isDirectory n = (case n of Folder \<Rightarrow> True | File _ \<Rightarrow> False)"

definition existsDir :: "filesystem \<Rightarrow> string \<Rightarrow> bool" where
  "existsDir fs d = (map_of fs d \<noteq> None)"

definition lookupFile :: "filesystem \<Rightarrow> path \<Rightarrow> node option" where
  "lookupFile fs p = (case map_of fs (fst p) of None \<Rightarrow> None | Some l \<Rightarrow> map_of l (snd p))"

definition fs_rename :: "filesystem \<Rightarrow> path \<Rightarrow> path \<Rightarrow> jserror + filesystem" where
  "fs_rename fs src dst =
     (case map_of fs (fst src) of
        None \<Rightarrow> Inl (Error ''ENOENT'')
      | Some sl \<Rightarrow>
          (case map_of sl (snd src) of
             None \<Rightarrow> Inl (Error ''ENOENT'')
           | Some nd \<Rightarrow>
               (let fs1 = AList.update (fst src) (AList.delete (snd src) sl) fs
                in case map_of fs1 (fst dst) of
                     None \<Rightarrow> Inl (Error ''ENOENT'')
                   | Some dl \<Rightarrow>
                       (case map_of dl (snd dst) of
                          Some Folder \<Rightarrow> Inl (Error ''EISDIR'')
                        | _ \<Rightarrow> Inr (AList.update (fst dst)
                                     (AList.delete (snd dst) dl @ [(snd dst, nd)]) fs1)))))"

definition fs_unlink :: "filesystem \<Rightarrow> path \<Rightarrow> jserror + filesystem" where
  "fs_unlink fs p =
     (case map_of fs (fst p) of
        None \<Rightarrow> Inl (Error ''ENOENT'')
      | Some l \<Rightarrow>
          (case map_of l (snd p) of
             None \<Rightarrow> Inl (Error ''ENOENT'')
           | Some Folder \<Rightarrow> Inl (Error ''EISDIR'')
           | Some (File _) \<Rightarrow> Inr (AList.update (fst p) (AList.delete (snd p) l) fs)))"

definition fs_write :: "filesystem \<Rightarrow> path \<Rightarrow> string \<Rightarrow> jserror + filesystem" where
  "fs_write fs p bytes =
     (if CHR ''/'' \<in> set (snd p) then Inl (Error ''ENOENT'')
      else case map_of fs (fst p) of
        None \<Rightarrow> Inl (Error ''ENOENT'')
      | Some l \<Rightarrow>
          (case map_of l (snd p) of
             Some Folder \<Rightarrow> Inl (Error ''EISDIR'')
           | _ \<Rightarrow> Inr (AList.update (fst p) (AList.update (snd p) (File bytes) l) fs)))"

section \<open>Parsed messages and the upstream transport\<close>

record AddressObject =
  addr_text :: string

datatype to_field = ToUndefined | ToSingle AddressObject | ToArray "AddressObject list"

record ParsedMail =
  pm_from :: "AddressObject option"
  pm_to :: to_field
  pm_subject :: "string option"
  pm_text :: "string option"
  pm_html :: "string option"
  pm_attachments :: "string list"

datatype to_conv = CUndefined | CString string | CArray "string list"

record MailOptions =
  mo_from :: string
  mo_to :: to_conv
  mo_subject :: "string option"
  mo_text :: "string option"
  mo_html :: "string option"
  mo_attachments :: "string list"

section \<open>Events\<close>

text \<open>
  Everything the program does to the outside, other than to the disk, is an event of the
  trace: a line of the logger, a call of one of the configured callbacks
  (\<open>OnReject s e\<close> is the statement \<^verbatim>\<open>this.config.onReject?.(s, e)\<close>), the body of a session
  piped into the null stream, the SMTP completion callback of \<^verbatim>\<open>onData\<close> (with no error:
  the client reads 250; with an error: the client reads a failure), the file operations
  started, and a message handed to the upstream transporter.
\<close>

datatype DLogLevel = DEBUG | INFO | WARNING | ERROR

datatype event =
    Log DLogLevel string
  | OnReceiving string
  | OnSaving string
  | OnSaved string
  | OnReject string jserror
  | OnForwarding path
  | OnForwarded string
  | OnError jserror
  | OnWarning jserror
  | PipeNull
  | Callback "jserror option"
  | FsWrite path
  | FsRename path path
  | FsUnlink path
  | SendMail MailOptions

section \<open>The state of the relay\<close>

record DStatus =
  ready :: bool
  message :: string

record DMailSender =
  sender_status :: DStatus
  transporter :: bool

record DRemailerConfig =
  listenerAddress :: "string option"
  listenerPort :: "int option"
  listenerSecure :: "bool option"
  listenerLmtp :: "bool option"
  senderSmtpHost :: "string option"
  senderSmtpPort :: "int option"
  senderSmtpSecure :: "bool option"
  senderIgnoreInvalidCert :: "bool option"
  senderLmtp :: "bool option"
  backupEnabled :: "bool option"

record DRemailer =
  smtpServer :: bool
  mailSender :: "DMailSender option"
  config :: DRemailerConfig
  timerIntervalMs :: int
  emlParkingQueue :: "string list"
  emlDirectQueue :: "string list"
  emlErrorQueue :: "string list"
  emlParkingBackupQueue :: "string list"
  emlDirectBackupQueue :: "string list"
  emlScanning :: bool
  emlParkingDir :: "string option"
  emlDirectDir :: "string option"
  emlErrorDir :: "string option"
  emlParkingBackupDir :: "string option"
  emlDirectBackupDir :: "string option"
  status :: DStatus
  listenerRunning :: bool
  senderPaused :: bool
  listenerPaused :: bool

text \<open>
  The world is the object (\<^verbatim>\<open>this\<close>), the disk and the trace of events so far.  An
  asynchronous operation is taken where the program starts it, so a world returned by a
  function is the one reached when its promise has settled (a rename that is started and
  not awaited is done, and its failure logged, at the place of its start).  The sender
  \<open>mailSender\<close> is a static member of the class, one for the process; the world holds one
  relay, so it is kept as a field of it.
\<close>

record world =
  self :: DRemailer
  disk :: filesystem
  trace :: "event list"

definition emit :: "event \<Rightarrow> world \<Rightarrow> world" where
  "emit e w = w\<lparr>trace := trace w @ [e]\<rparr>"

text \<open>
  The logger prints the message, followed by the inspected value in brackets when one is
  given and true, and returns that text.  The inspection of an error is written
  \<^verbatim>\<open>Error: message\<close> (without the stack), the one of a string is the string in quotes,
  and the one of any other object is written \<^verbatim>\<open>[object]\<close>.
\<close>

definition logMsg :: "string \<Rightarrow> string option \<Rightarrow> string" where
  "logMsg m v = (case v of None \<Rightarrow> m | Some s \<Rightarrow> m @ '' ('' @ s @ '')'')"

definition dlog :: "DLogLevel \<Rightarrow> string \<Rightarrow> world \<Rightarrow> world" where
  "dlog l m w = emit (Log l m) w"

definition inspect_error :: "jserror \<Rightarrow> string" where
  "inspect_error e = ''Error: '' @ msg e"

definition inspect_string :: "string \<Rightarrow> string" where
  "inspect_string s = [CHR 0x27] @ s @ [CHR 0x27]"

section \<open>Numbers as text\<close>

fun show_nat :: "nat \<Rightarrow> string" where
  "show_nat n = (if n < 10 then [''0123456789'' ! n] else show_nat (n div 10) @ [''0123456789'' ! (n mod 10)])"

declare show_nat.simps [simp del]

definition show_int :: "int \<Rightarrow> string" where
  "show_int i = (if i < 0 then ''-'' @ show_nat (nat (- i)) else show_nat (nat i))"

definition show_dir :: "string option \<Rightarrow> string" where
  "show_dir d = (case d of None \<Rightarrow> ''undefined'' | Some s \<Rightarrow> s)"

section \<open>The upstream sender (DMailSender)\<close>

text \<open>
  The message parser and the SMTP transporter are libraries: they are parameters of the
  model.  \<open>simpleParser\<close> reads the bytes of a file, \<open>sendMail\<close> submits a composed message
  and answers with the receipt of the upstream server or with its error.
\<close>

record env =
  simpleParser :: "string \<Rightarrow> jserror + ParsedMail"
  sendMail :: "MailOptions \<Rightarrow> jserror + string"

fun convertAddress :: "to_field \<Rightarrow> to_conv" where
  "convertAddress ToUndefined = CUndefined"
| "convertAddress (ToArray xs) = CArray (map addr_text xs)"
| "convertAddress (ToSingle a) = CString (addr_text a)"

text \<open>\<open>falsy_to t\<close> is the test \<^verbatim>\<open>!to\<close>: an array, also the empty one, is true in JavaScript.\<close>

definition falsy_to :: "to_conv \<Rightarrow> bool" where
  "falsy_to t = (case t of CUndefined \<Rightarrow> True | CString s \<Rightarrow> s = [] | CArray _ \<Rightarrow> False)"

text \<open>\<open>reject_log m\<close> is \<^verbatim>\<open>reject(new Error(log.e(m)))\<close>.\<close>

definition reject_log :: "string \<Rightarrow> world \<Rightarrow> (jserror + string) \<times> world" where
  "reject_log m w = (Inl (Error m), dlog ERROR m w)"

definition forwardEml :: "env \<Rightarrow> DMailSender \<Rightarrow> path \<Rightarrow> world \<Rightarrow> (jserror + string) \<times> world" where
  "forwardEml ev s emailFilename w =
     (if \<not> ready (sender_status s) then reject_log (message (sender_status s)) w
      else case lookupFile (disk w) emailFilename of
          None \<Rightarrow> reject_log (path_str emailFilename @ '' does not exist'') w
        | Some Folder \<Rightarrow> reject_log (path_str emailFilename @ '' is not a file'') w
        | Some (File emailData) \<Rightarrow>
            if \<not> transporter s then reject_log ''this.transporter is not ready'' w
            else
              (case simpleParser ev emailData of
                 Inl e \<Rightarrow>
                   (Inl e, dlog ERROR ''simpleParser result empty'' (dlog DEBUG ''parsedEmail='' w))
               | Inr parsedEmail \<Rightarrow>
                   (let w1 = dlog DEBUG (logMsg ''parsedEmail='' (Some ''[object]'')) w in
                    case pm_from parsedEmail of
                      None \<Rightarrow> reject_log ''eml not contains <from> address'' w1
                    | Some fromAddr \<Rightarrow>
                        (let to = convertAddress (pm_to parsedEmail) in
                         if falsy_to to then reject_log ''eml not contains <to> address'' w1
                         else
                           (let w2 = dlog DEBUG (logMsg ''from='' (Some ''[object]'')) w1;
                                w3 = dlog DEBUG (logMsg ''to='' (Some ''[object]'')) w2;
                                w4 = dlog DEBUG (logMsg ''subject='' (map_option inspect_string (avail (pm_subject parsedEmail)))) w3;
                                w5 = dlog DEBUG (logMsg ''text='' (Some (inspect_string
                                       (if truthy (pm_text parsedEmail) then ''PRESENT'' else ''NO TEXT'')))) w4;
                                w6 = dlog DEBUG (logMsg ''html='' (Some (inspect_string
                                       (if truthy (pm_html parsedEmail) then ''PRESENT'' else ''NO HTML'')))) w5;
                                w7 = dlog DEBUG (''attachments='' @ show_nat (length (pm_attachments parsedEmail))) w6;
                                mailOptions = \<lparr> mo_from = addr_text fromAddr, mo_to = to,
                                                mo_subject = pm_subject parsedEmail,
                                                mo_text = pm_text parsedEmail,
                                                mo_html = avail (pm_html parsedEmail),
                                                mo_attachments = pm_attachments parsedEmail \<rparr>
                            in (sendMail ev mailOptions, emit (SendMail mailOptions) w7))))))"

section \<open>Moving spool files\<close>

definition moveToError :: "path \<Rightarrow> jserror \<Rightarrow> world \<Rightarrow> world" where
  "moveToError emlFilename error w =
     (case avail (emlErrorDir (self w)) of
        None \<Rightarrow>
          (let err = Error (''Cannot move '' @ path_str emlFilename @ '' to error folder: folder is unavailable'')
           in emit (OnError err) (dlog ERROR (msg err) w))
      | Some errorDir \<Rightarrow>
          (let emlFile = basename emlFilename;
               dst = (errorDir, emlFile);
               w1 = emit (FsRename emlFilename dst) w
           in case fs_rename (disk w1) emlFilename dst of
                Inl err \<Rightarrow>
                  emit (OnError err)
                    (dlog ERROR (logMsg (''Cannot move '' @ emlFile @ '' to error folder: '')
                       (Some (inspect_string (msg err)))) w1)
              | Inr d \<Rightarrow> w1\<lparr>disk := d\<rparr>))"

definition moveToParkingBackup :: "path \<Rightarrow> world \<Rightarrow> (jserror + unit) \<times> world" where
  "moveToParkingBackup emlFilename w =
     (let emlFile = basename emlFilename in
      case avail (emlParkingBackupDir (self w)) of
        None \<Rightarrow>
          (let err = Error (''Cannot move '' @ path_str emlFilename @ '' to backup folder: folder is unavailable'')
           in (Inl err, emit (OnError err) (dlog ERROR (msg err) w)))
      | Some backupDir \<Rightarrow>
          (let dst = (backupDir, emlFile);
               w1 = emit (FsRename emlFilename dst) w
           in case fs_rename (disk w1) emlFilename dst of
                Inl err \<Rightarrow>
                  (Inl err, emit (OnError err)
                    (dlog ERROR (logMsg (''Cannot move '' @ emlFile @ '' to parking bakup folder: '')
                       (Some (inspect_string (msg err)))) w1))
              | Inr d \<Rightarrow> (Inr (), w1\<lparr>disk := d\<rparr>)))"

definition moveToDirectBackup :: "path \<Rightarrow> world \<Rightarrow> (jserror + unit) \<times> world" where
  "moveToDirectBackup emlFilename w =
     (case avail (emlDirectBackupDir (self w)) of
        None \<Rightarrow>
          (let err = Error (''Cannot move '' @ path_str emlFilename @ '' to direct backup folder: folder is unavailable'')
           in (Inl err, emit (OnError err) (dlog ERROR (msg err) w)))
      | Some backupDir \<Rightarrow>
          (let emlFile = basename emlFilename;
               dst = (backupDir, emlFile);
               w1 = emit (FsRename emlFilename dst) w
           in case fs_rename (disk w1) emlFilename dst of
                Inl err \<Rightarrow>
                  (Inl err, emit (OnError err)
                    (dlog ERROR (logMsg (''Cannot move '' @ emlFile @ '' to error folder: '')
                       (Some (inspect_string (msg err)))) w1))
              | Inr d \<Rightarrow> (Inr (), w1\<lparr>disk := d\<rparr>)))"

section \<open>Forwarding\<close>

definition forward :: "env \<Rightarrow> path \<Rightarrow> world \<Rightarrow> (jserror + string) \<times> world" where
  "forward ev emlFilename w =
     (let w1 = emit (OnForwarding emlFilename) w in
      case mailSender (self w1) of
        None \<Rightarrow> reject_log ''Cannot forward, <mailSender> is not ready'' w1
      | Some s \<Rightarrow>
          (case forwardEml ev s emlFilename w1 of
             (Inr info, w2) \<Rightarrow>
               (Inr info, emit (OnForwarded (relativeToRoot emlFilename))
                            (dlog DEBUG (''Forwarded '' @ path_str emlFilename) w2))
           | (Inl err, w2) \<Rightarrow>
               (Inl err, emit (OnError err)
                           (moveToError emlFilename err
                              (dlog ERROR (logMsg ''Not Forwarded '' (Some (inspect_error err))) w2)))))"

text \<open>
  \<^verbatim>\<open>forwardOne\<close> resolves to \<^verbatim>\<open>false\<close>, to \<^verbatim>\<open>undefined\<close>, to the receipt of the upstream
  server, or to the error of a failed forward (its \<^verbatim>\<open>catch\<close> returns the error).
\<close>

datatype fwd_result = RFalse | RUndefined | RInfo string | RError jserror

definition forwardOne :: "env \<Rightarrow> world \<Rightarrow> fwd_result \<times> world" where
  "forwardOne ev w =
     (case avail (emlParkingDir (self w)) of
        None \<Rightarrow>
          (let err = Error ''Parking storage folder not available'';
               w1 = w\<lparr>self := (self w)\<lparr>emlParkingQueue := []\<rparr>\<rparr>;
               w2 = dlog ERROR (msg err) w1;
               w3 = w2\<lparr>self := (self w2)\<lparr>status := \<lparr>ready = False, message = msg err\<rparr>\<rparr>\<rparr>
           in (RFalse, emit (OnError err) w3))
      | Some parkingDir \<Rightarrow>
          (case emlParkingQueue (self w) of
             [] \<Rightarrow> (RUndefined, w)
           | emlName # rest \<Rightarrow>
               (let w1 = w\<lparr>self := (self w)\<lparr>emlParkingQueue := rest\<rparr>\<rparr> in
                if emlName = [] then (RUndefined, w1)
                else
                  (let emlFilename = (parkingDir, emlName);
                       w2 = dlog DEBUG (''Forwarding '' @ emlName) w1
                   in case forward ev emlFilename w2 of
                        (Inr info, w3) \<Rightarrow>
                          if flag (backupEnabled (config (self w3))) then
                            (RInfo info,
                             snd (moveToParkingBackup emlFilename (dlog DEBUG (''Backing up '' @ emlName) w3)))
                          else
                            (let w4 = emit (FsUnlink emlFilename) (dlog DEBUG (''Deleting '' @ emlName) w3)
                             in case fs_unlink (disk w4) emlFilename of
                                  Inl e \<Rightarrow> (RInfo info, emit (OnError e) w4)
                                | Inr d \<Rightarrow> (RInfo info, w4\<lparr>disk := d\<rparr>))
                      | (Inl err, w3) \<Rightarrow>
                          (RError err,
                           w3\<lparr>self := (self w3)\<lparr>emlParkingQueue := emlParkingQueue (self w3) @ [emlName]\<rparr>\<rparr>)))))"

section \<open>Receiving a message\<close>

record SMTPServerAddress =
  address :: string

record SMTPEnvelope =
  mailFrom :: "SMTPServerAddress option"
  rcptTo :: "SMTPServerAddress list option"

record SMTPServerSession =
  session_id :: string
  envelope :: SMTPEnvelope

text \<open>
  The clock is a parameter: the UTC fields of \<^verbatim>\<open>new Date()\<close>.  \<open>toISOString\<close> is the
  ECMAScript text of a date: four digits of the year (a sign and six digits past 9999),
  then month, day, hours, minutes, seconds in two digits and the milliseconds in three.
\<close>

record JsDate =
  year :: nat
  month :: nat
  day :: nat
  hours :: nat
  minutes :: nat
  seconds :: nat
  milliseconds :: nat

definition pad :: "nat \<Rightarrow> nat \<Rightarrow> string" where
  "pad width n = replicate (width - length (show_nat n)) (CHR ''0'') @ show_nat n"

definition toISOString :: "JsDate \<Rightarrow> string" where
  "toISOString d =
     (if year d \<le> 9999 then pad 4 (year d) else ''+'' @ pad 6 (year d)) @ ''-'' @
     pad 2 (month d) @ ''-'' @ pad 2 (day d) @ ''T'' @ pad 2 (hours d) @ '':'' @
     pad 2 (minutes d) @ '':'' @ pad 2 (seconds d) @ ''.'' @ pad 3 (milliseconds d) @ ''Z''"

definition is_digit :: "char \<Rightarrow> bool" where
  "is_digit c = (c \<in> set ''0123456789'')"

text \<open>\<open>sanitize\<close> is \<^verbatim>\<open>replace(/[@.]/g, "-")\<close>, \<open>join\<close> is \<^verbatim>\<open>Array.prototype.join\<close>.\<close>

definition sanitize :: "string \<Rightarrow> string" where
  "sanitize s = map (\<lambda>c. if c = CHR ''@'' \<or> c = CHR ''.'' then CHR ''-'' else c) s"

fun join :: "string \<Rightarrow> string list \<Rightarrow> string" where
  "join sep [] = []"
| "join sep [x] = x"
| "join sep (x # y # ys) = x @ sep @ join sep (y # ys)"

definition emlFileName :: "JsDate \<Rightarrow> SMTPServerSession \<Rightarrow> string" where
  "emlFileName now session =
     (let currentDate = filter is_digit (toISOString now);
          fromAddr = (case mailFrom (envelope session) of
                        Some a \<Rightarrow> sanitize (address a)
                      | None \<Rightarrow> ''bho'');
          toAddr = (case rcptTo (envelope session) of Some l \<Rightarrow> l | None \<Rightarrow> []);
          toAddrStr = join ''-'' (map (\<lambda>a. sanitize (address a)) toAddr)
      in currentDate @ ''_'' @ session_id session @ ''_'' @ fromAddr @ ''_'' @ toAddrStr @ ''.eml'')"

definition saveEmailToDisk ::
  "JsDate \<Rightarrow> string \<Rightarrow> SMTPServerSession \<Rightarrow> string \<Rightarrow> world \<Rightarrow> (jserror + string) \<times> world" where
  "saveEmailToDisk now stream session folder w =
     (let w1 = emit (OnSaving (session_id session)) w;
          w2 = dlog DEBUG (''Try to save email id: '' @ session_id session @ '' to '' @ folder) w1;
          fileName = emlFileName now session;
          filePath = (folder, fileName);
          w3 = emit (FsWrite filePath) w2
      in case fs_write (disk w3) filePath stream of
           Inr d \<Rightarrow>
             (Inr fileName,
              emit (OnSaved (session_id session))
                (dlog DEBUG (''email id '' @ session_id session @ '' saved to '' @ folder)
                   (w3\<lparr>disk := d\<rparr>)))
         | Inl error \<Rightarrow>
             (let m = logMsg ''Error saving email to disk:'' (Some (inspect_error error))
              in (Inl (Error m), dlog ERROR m (emit (OnError error) w3))))"

text \<open>
  \<open>rejectData\<close> is the block
  \<^verbatim>\<open>stream.pipe(nullStream()); callback(err); this.config.onReject?.(session, err);\<close>
  and \<open>failData\<close> the handler \<^verbatim>\<open>callback(err); this.config.onReject?.(session, err);\<close>.
\<close>

definition rejectData :: "SMTPServerSession \<Rightarrow> jserror \<Rightarrow> world \<Rightarrow> world" where
  "rejectData session err w =
     emit (OnReject (session_id session) err) (emit (Callback (Some err)) (emit PipeNull w))"

definition failData :: "SMTPServerSession \<Rightarrow> jserror \<Rightarrow> world \<Rightarrow> world" where
  "failData session err w = emit (OnReject (session_id session) err) (emit (Callback (Some err)) w)"

definition onData :: "env \<Rightarrow> JsDate \<Rightarrow> string \<Rightarrow> SMTPServerSession \<Rightarrow> world \<Rightarrow> world" where
  "onData ev now stream session w0 =
     (let w = emit (OnReceiving (session_id session)) w0 in
      if \<not> ready (status (self w)) then
        rejectData session (Error (''Remailer not ready: '' @ message (status (self w)))) w
      else if listenerPaused (self w) then
        rejectData session (Error ''Remailer paused, please try later'') w
      else if timerIntervalMs (self w) > 0 then
        (case avail (emlParkingDir (self w)) of
           None \<Rightarrow> rejectData session (Error ''Parking storage folder not available'') w
         | Some parkingDir \<Rightarrow>
             (case saveEmailToDisk now stream session parkingDir w of
                (Inr emlName, w1) \<Rightarrow>
                  emit (Callback None)
                    (w1\<lparr>self := (self w1)\<lparr>emlParkingQueue := emlParkingQueue (self w1) @ [emlName]\<rparr>\<rparr>)
              | (Inl err, w1) \<Rightarrow> failData session err w1))
      else
        (case avail (emlDirectDir (self w)) of
           None \<Rightarrow> rejectData session (Error ''Direct storage folder not available'') w
         | Some directDir \<Rightarrow>
             (case saveEmailToDisk now stream session directDir w of
                (Inl err, w1) \<Rightarrow> failData session err w1
              | (Inr emlName, w1) \<Rightarrow>
                  if emlName \<noteq> [] \<and> \<not> senderPaused (self w1) then
                    (let emlFilename = (directDir, emlName) in
                     case forward ev emlFilename w1 of
                       (Inr info, w2) \<Rightarrow>
                         (let w3 = emit (Callback None) w2 in
                          if flag (backupEnabled (config (self w3))) then
                            snd (moveToDirectBackup emlFilename (dlog DEBUG (''Backing up '' @ emlName) w3))
                          else
                            (let w4 = emit (FsUnlink emlFilename) (dlog DEBUG (''Deleting '' @ emlName) w3)
                             in case fs_unlink (disk w4) emlFilename of
                                  Inl e \<Rightarrow>
                                    emit (OnError (Error (''Cannot delete file: '' @ path_str emlFilename @ '' '' @ msg e)))
                                      (dlog ERROR (msg e) w4)
                                | Inr d \<Rightarrow> w4\<lparr>disk := d\<rparr>))
                     | (Inl err, w2) \<Rightarrow> failData session err w2)
                  else w1)))"

section \<open>Scanning the spool\<close>

record DRemailerStorage =
  parking :: "string list"
  direct :: "string list"
  error :: "string list"
  parkingBackup :: "string list"
  directBackup :: "string list"

text \<open>\<open>split c s\<close> is \<^verbatim>\<open>s.split(c)\<close> for a separator of one character; it is never empty.\<close>

fun split :: "char \<Rightarrow> string \<Rightarrow> string list" where
  "split c [] = [[]]"
| "split c (x # xs) =
     (if x = c then [] # split c xs
      else (case split c xs of [] \<Rightarrow> [[x]] | y # ys \<Rightarrow> (x # y) # ys))"

text \<open>\<open>keepExt ext\<close> is the filter
  \<^verbatim>\<open>item => !item.isDirectory() && item.name.split('.').pop() == ext\<close>.\<close>

definition keepExt :: "string \<Rightarrow> string \<times> node \<Rightarrow> bool" where
  "keepExt ext item = (\<not> isDirectory (snd item) \<and> last (split (CHR ''.'') (fst item)) = ext)"

definition findFiles :: "filesystem \<Rightarrow> string option \<Rightarrow> string option \<Rightarrow> jserror + string list" where
  "findFiles fs folderPath extFilter =
     (case folderPath of
        None \<Rightarrow> Inl (Error ''ERR_INVALID_ARG_TYPE'')
      | Some folder \<Rightarrow>
          (case map_of fs folder of
             None \<Rightarrow> Inl (Error ''ENOENT'')
           | Some files \<Rightarrow>
               Inr (map fst (filter (\<lambda>item. case avail extFilter of
                                               Some ext \<Rightarrow> keepExt ext item
                                             | None \<Rightarrow> \<not> isDirectory (snd item)) files))))"

definition existsSync :: "filesystem \<Rightarrow> string option \<Rightarrow> bool" where
  "existsSync fs d = (case d of None \<Rightarrow> False | Some p \<Rightarrow> existsDir fs p)"

definition isStorageReady :: "bool \<Rightarrow> world \<Rightarrow> bool \<times> world" where
  "isStorageReady checkExisting w =
     (if truthy (emlParkingDir (self w)) \<and> truthy (emlDirectDir (self w)) \<and>
         truthy (emlErrorDir (self w)) \<and> truthy (emlParkingBackupDir (self w)) \<and>
         truthy (emlDirectBackupDir (self w)) then
        (if checkExisting then
           (let w1 = dlog DEBUG ''Check existing'' w;
                s = self w1;
                fs = disk w1;
                p = existsSync fs (emlParkingDir s);
                d = existsSync fs (emlDirectDir s);
                e = existsSync fs (emlErrorDir s);
                pb = existsSync fs (emlParkingBackupDir s);
                db = existsSync fs (emlDirectBackupDir s)
            in (p \<and> d \<and> e \<and> pb \<and> db,
                w1\<lparr>self := s\<lparr>emlParkingDir := (if p then emlParkingDir s else None),
                              emlDirectDir := (if d then emlDirectDir s else None),
                              emlErrorDir := (if e then emlErrorDir s else None),
                              emlParkingBackupDir := (if pb then emlParkingBackupDir s else None),
                              emlDirectBackupDir := (if db then emlDirectBackupDir s else None)\<rparr>\<rparr>))
         else (True, w))
      else
        (False,
         dlog ERROR (''Storage not ready: Interval ms='' @ show_int (timerIntervalMs (self w)) @
                     '' Parking folder='' @ show_dir (emlParkingDir (self w)) @
                     '' Direct folder='' @ show_dir (emlDirectDir (self w)) @
                     '' Error folder='' @ show_dir (emlErrorDir (self w)) @
                     '' Parking backup folder='' @ show_dir (emlParkingBackupDir (self w)) @
                     '' Direct backup folder='' @ show_dir (emlDirectBackupDir (self w))) w))"

definition storageOf :: "DRemailer \<Rightarrow> DRemailerStorage" where
  "storageOf s = \<lparr> parking = emlParkingQueue s, direct = emlDirectQueue s, error = emlErrorQueue s,
                   parkingBackup = emlParkingBackupQueue s, directBackup = emlDirectBackupQueue s \<rparr>"

text \<open>The branch of both scans taken when the storage is not ready.\<close>

definition scanNotReady :: "world \<Rightarrow> jserror \<times> world" where
  "scanNotReady w =
     (let w1 = w\<lparr>self := (self w)\<lparr>emlParkingQueue := [], emlDirectQueue := [], emlErrorQueue := [],
                                   emlParkingBackupQueue := [], emlDirectBackupQueue := []\<rparr>\<rparr>;
          err = Error ''Parking storage folder not available'';
          w2 = dlog ERROR (msg err) w1;
          w3 = w2\<lparr>self := (self w2)\<lparr>status := \<lparr>ready = False, message = msg err\<rparr>\<rparr>\<rparr>
      in (err, emit (OnError err) w3))"

text \<open>\<open>promise_all\<close> is \<^verbatim>\<open>Promise.all\<close>: all the values, or the first error.\<close>

fun promise_all :: "(jserror + 'a) list \<Rightarrow> jserror + 'a list" where
  "promise_all [] = Inr []"
| "promise_all (Inl e # ps) = Inl e"
| "promise_all (Inr x # ps) = (case promise_all ps of Inl e \<Rightarrow> Inl e | Inr xs \<Rightarrow> Inr (x # xs))"

definition scanStorageAsync :: "world \<Rightarrow> (jserror + DRemailerStorage) \<times> world" where
  "scanStorageAsync w0 =
     (let w = dlog DEBUG ''Scanning eml files...'' w0 in
      case isStorageReady True w of
        (False, w1) \<Rightarrow> (case scanNotReady w1 of (err, w2) \<Rightarrow> (Inl err, w2))
      | (True, w1) \<Rightarrow>
          if emlScanning (self w1) then
            (Inl (Error ''Already scanning...''), dlog WARNING ''Already scanning...'' w1)
          else
            (let w2 = w1\<lparr>self := (self w1)\<lparr>emlScanning := True\<rparr>\<rparr>;
                 w3 = dlog DEBUG ''Start async scan parking'' w2;
                 pParking = findFiles (disk w3) (emlParkingDir (self w3)) (Some ''eml'');
                 w4 = dlog DEBUG ''Start async scan direct'' w3;
                 pDirect = findFiles (disk w4) (emlDirectDir (self w4)) (Some ''eml'');
                 w5 = dlog DEBUG ''Start async scan error'' w4;
                 pError = findFiles (disk w5) (emlErrorDir (self w5)) (Some ''eml'');
                 w6 = dlog DEBUG ''Start async scan parking backup'' w5;
                 pParkingBackup = findFiles (disk w6) (emlParkingBackupDir (self w6)) (Some ''eml'');
                 w7 = dlog DEBUG ''Start async scan direct backup'' w6;
                 pDirectBackup = findFiles (disk w7) (emlDirectBackupDir (self w7)) (Some ''eml'')
             in case promise_all [pParking, pDirect, pError, pParkingBackup, pDirectBackup] of
                  Inl err \<Rightarrow> (Inl err, w7)
                | Inr pList \<Rightarrow>
                    (case pList of
                       [qp, qd, qe, qpb, qdb] \<Rightarrow>
                         (let w8 = dlog DEBUG ''End async scan'' w7;
                              s = (self w8)\<lparr>emlParkingQueue := qp, emlDirectQueue := qd,
                                            emlErrorQueue := qe, emlParkingBackupQueue := qpb,
                                            emlDirectBackupQueue := qdb, emlScanning := False\<rparr>
                          in (Inr (storageOf s), w8\<lparr>self := s\<rparr>))
                     | _ \<Rightarrow> (Inl (Error ''TypeError''), w7))))"

text \<open>
  \<open>readEml\<close> is the expression
  \<^verbatim>\<open>fss.readdirSync(dir, {withFileTypes: true}).filter(...).map(item => item.name)\<close>;
  \<open>Inl\<close> is the exception of \<^verbatim>\<open>readdirSync\<close>.  \<open>scanStorageSync\<close> returns the snapshot,
  \<^verbatim>\<open>undefined\<close> (\<open>None\<close>), or leaves with that exception.
\<close>

definition readEml :: "filesystem \<Rightarrow> string option \<Rightarrow> jserror + string list" where
  "readEml fs dir =
     (case dir of
        None \<Rightarrow> Inl (Error ''ERR_INVALID_ARG_TYPE'')
      | Some folder \<Rightarrow>
          (case map_of fs folder of
             None \<Rightarrow> Inl (Error ''ENOENT'')
           | Some files \<Rightarrow> Inr (map fst (filter (keepExt ''eml'') files))))"

definition scanStorageSync :: "world \<Rightarrow> (jserror + DRemailerStorage option) \<times> world" where
  "scanStorageSync w0 =
     (let w = dlog DEBUG ''Scanning eml files...'' w0 in
      case isStorageReady True w of
        (False, w1) \<Rightarrow> (case scanNotReady w1 of (err, w2) \<Rightarrow> (Inr None, w2))
      | (True, w1) \<Rightarrow>
          if emlScanning (self w1) then (Inr None, dlog WARNING ''Already scanning...'' w1)
          else
            (let w2 = w1\<lparr>self := (self w1)\<lparr>emlScanning := True\<rparr>\<rparr> in
             case readEml (disk w2) (emlParkingDir (self w2)) of
               Inl x \<Rightarrow> (Inl x, w2)
             | Inr qp \<Rightarrow>
             (let w3 = w2\<lparr>self := (self w2)\<lparr>emlParkingQueue := qp\<rparr>\<rparr> in
              case readEml (disk w3) (emlDirectDir (self w3)) of
                Inl x \<Rightarrow> (Inl x, w3)
              | Inr qd \<Rightarrow>
              (let w4 = w3\<lparr>self := (self w3)\<lparr>emlDirectQueue := qd\<rparr>\<rparr> in
               case readEml (disk w4) (emlErrorDir (self w4)) of
                 Inl x \<Rightarrow> (Inl x, w4)
               | Inr qe \<Rightarrow>
               (let w5 = w4\<lparr>self := (self w4)\<lparr>emlErrorQueue := qe\<rparr>\<rparr> in
                case readEml (disk w5) (emlParkingBackupDir (self w5)) of
                  Inl x \<Rightarrow> (Inl x, w5)
                | Inr qpb \<Rightarrow>
                (let w6 = w5\<lparr>self := (self w5)\<lparr>emlParkingBackupQueue := qpb\<rparr>\<rparr> in
                 case readEml (disk w6) (emlDirectBackupDir (self w6)) of
                   Inl x \<Rightarrow> (Inl x, w6)
                 | Inr qdb \<Rightarrow>
                 (let w7 = w6\<lparr>self := (self w6)\<lparr>emlDirectBackupQueue := qdb\<rparr>\<rparr>;
                      w8 = dlog DEBUG ''eml files scanning end'' w7;
                      w9 = w8\<lparr>self := (self w8)\<lparr>status := \<lparr>ready = True, message = ''eml files scanning end''\<rparr>,
                                                  emlScanning := False\<rparr>\<rparr>
                  in (Inr (Some (storageOf (self w9))), w9))))))))"

section \<open>Pausing\<close>

definition suspendSender :: "bool \<Rightarrow> world \<Rightarrow> world" where
  "suspendSender suspended w =
     (let w1 = dlog DEBUG ''Suspending sender...'' w;
          w2 = (if senderPaused (self w1) \<noteq> suspended then
                  (if suspended then dlog WARNING ''Sender manual PAUSED'' w1
                   else dlog INFO ''Sender manual UN-PAUSED'' w1)
                else w1)
      in w2\<lparr>self := (self w2)\<lparr>senderPaused := suspended\<rparr>\<rparr>)"

definition suspendListener :: "bool \<Rightarrow> world \<Rightarrow> world" where
  "suspendListener suspended w =
     (let w1 = (if listenerPaused (self w) \<noteq> suspended then
                  (if suspended then dlog WARNING ''Listener manual PAUSED'' w
                   else if smtpServer (self w) then dlog INFO ''Listener manual UN-PAUSED'' w
                   else w)
                else w)
      in w1\<lparr>self := (self w1)\<lparr>listenerPaused := suspended\<rparr>\<rparr>)"

section \<open>The status snapshot\<close>

record ListenerSummary =
  l_ready :: bool
  l_running :: bool
  l_address :: string
  l_port :: int
  l_mode :: string
  l_TLS :: bool

record SenderSummary =
  s_ready :: bool
  s_running :: bool
  s_host :: string
  s_port :: int
  s_mode :: string
  s_TLS :: bool
  s_ignoreCRT :: bool

record StorageSummary =
  st_ready :: bool

record TimerSummary =
  enabled :: bool
  sec :: rat

record DRemailerStatus =
  listener :: ListenerSummary
  sender :: SenderSummary
  storage :: StorageSummary
  timer :: TimerSummary

definition isListenerReady :: "DRemailer \<Rightarrow> bool" where
  "isListenerReady s = (if smtpServer s then True else False)"

definition isSenderReady :: "DRemailer \<Rightarrow> bool" where
  "isSenderReady s =
     (if \<not> truthy (senderSmtpHost (config s)) then False
      else case mailSender s of
             None \<Rightarrow> False
           | Some m \<Rightarrow> ready (sender_status m))"

definition getSummary :: "world \<Rightarrow> DRemailerStatus \<times> world" where
  "getSummary w =
     (let s = self w;
          c = config s;
          l = \<lparr> l_ready = isListenerReady s,
                l_running = (\<not> listenerPaused s),
                l_address = (case avail (listenerAddress c) of Some a \<Rightarrow> a | None \<Rightarrow> []),
                l_port = (case listenerPort c of Some p \<Rightarrow> p | None \<Rightarrow> 0),
                l_mode = (if flag (listenerLmtp c) then ''LMTP'' else ''SMTP''),
                l_TLS = flag (listenerSecure c) \<rparr>;
          sn = \<lparr> s_ready = isSenderReady s,
                 s_running = (\<not> senderPaused s),
                 s_host = (case avail (senderSmtpHost c) of Some h \<Rightarrow> h | None \<Rightarrow> []),
                 s_port = (case senderSmtpPort c of Some p \<Rightarrow> p | None \<Rightarrow> 0),
                 s_mode = (if flag (senderLmtp c) then ''LMTP'' else ''SMTP''),
                 s_TLS = flag (senderSmtpSecure c),
                 s_ignoreCRT = flag (senderIgnoreInvalidCert c) \<rparr>;
          t = \<lparr> enabled = (if timerIntervalMs s \<le> 0 then True else False),
                sec = of_int (timerIntervalMs s) / 1000 \<rparr>
      in case isStorageReady True w of
           (r, w1) \<Rightarrow> (\<lparr> listener = l, sender = sn, storage = \<lparr> st_ready = r \<rparr>, timer = t \<rparr>, w1))"

definition showSummary :: "world \<Rightarrow> world" where
  "showSummary w =
     (case getSummary w of
        (summary, w1) \<Rightarrow>
          (let w2 = dlog DEBUG (logMsg ''Summary'' (Some ''[object]'')) w1;
               w3 = (if listenerPaused (self w2) then dlog WARNING ''Listener:          PAUSED'' w2 else w2)
           in if senderPaused (self w3) then dlog WARNING ''Sender:            PAUSED'' w3 else w3))"

section \<open>The control API\<close>

text \<open>
  A request is its method, its path, the parameters of its query string and the fields of
  its form body, each with the text of its value (a JSON body whose values are not
  strings is outside the model).  A response is the HTTP status and the JSON value sent.
\<close>

datatype http_method = GET | POST

record Request =
  req_method :: http_method
  req_path :: string
  req_query :: "(string \<times> string) list"
  req_body :: "(string \<times> string) list"

datatype json =
    JString string
  | JMessage string
  | JSummary DRemailerStatus
  | JStorage DRemailerStorage
  | PlainText string

record Response =
  res_status :: nat
  res_body :: json

definition notFound :: "Request \<Rightarrow> Response" where
  "notFound req = \<lparr> res_status = 404, res_body = PlainText (''Cannot '' @
     (case req_method req of GET \<Rightarrow> ''GET '' | POST \<Rightarrow> ''POST '') @ req_path req) \<rparr>"

text \<open>
  \<open>startRemailerControlApi apiKey\<close> is the handler of the routes that
  \<^verbatim>\<open>startRemailerControlApi(remailer, port, apiKey)\<close> of routes.ts registers.
\<close>

definition controlSender :: "Request \<Rightarrow> bool \<times> world \<Rightarrow> bool \<times> world" where
  "controlSender req dw =
     (if truthy (map_of (req_body req) ''suspend_sender'') then
        (True, suspendSender (map_of (req_body req) ''suspend_sender'' = Some ''true'')
                 (dlog DEBUG ''Requerst: suspend SENDER'' (snd dw)))
      else dw)"

definition controlListener :: "Request \<Rightarrow> bool \<times> world \<Rightarrow> bool \<times> world" where
  "controlListener req dw =
     (if truthy (map_of (req_body req) ''suspend_listener'') then
        (True, suspendListener (map_of (req_body req) ''suspend_listener'' = Some ''true'')
                 (dlog DEBUG ''Request: suspend LISTENER'' (snd dw)))
      else dw)"

definition startRemailerControlApi :: "string \<Rightarrow> Request \<Rightarrow> world \<Rightarrow> Response \<times> world" where
  "startRemailerControlApi apiKey req w =
     (if req_method req = POST \<and> req_path req = ''/api/remailer/control'' then
        (let w1 = dlog DEBUG (logMsg ''Remailer control request: '' (Some ''[object]'')) w in
         case controlListener req (controlSender req (False, w1)) of
           (done, w3) \<Rightarrow>
             if done then
               (\<lparr> res_status = 200, res_body = JString ''done'' \<rparr>, showSummary w3)
             else
               (\<lparr> res_status = 400, res_body = PlainText ''Bad Request'' \<rparr>,
                dlog ERROR ''Request unknown'' (dlog DEBUG (logMsg ''req.body'' (Some ''[object]'')) w3)))
      else if req_method req = GET \<and> req_path req = ''/api/remailer/query/status'' then
        (case getSummary (dlog DEBUG ''Remailer status request'' w) of
           (summary, w1) \<Rightarrow> (\<lparr> res_status = 200, res_body = JSummary summary \<rparr>, w1))
      else if req_method req = GET \<and> req_path req = ''/api/remailer/query/storage'' then
        (case scanStorageAsync (dlog DEBUG ''Remailer storage list request'' w) of
           (Inr result, w1) \<Rightarrow> (\<lparr> res_status = 200, res_body = JStorage result \<rparr>, w1)
         | (Inl err, w1) \<Rightarrow> (\<lparr> res_status = 400, res_body = JString (msg err) \<rparr>, w1))
      else (notFound req, w))"

text \<open>
  \<open>trim\<close> is \<^verbatim>\<open>String.prototype.trim\<close> on the white space of one byte.  \<open>checkApiKey\<close> is the
  middleware of main.ts: \<open>Some\<close> is the response it sends, \<open>None\<close> the call of \<^verbatim>\<open>next()\<close>.
  \<open>startAdminAPI apiKey\<close> is the handler that \<^verbatim>\<open>startAdminAPI(port, apiKey)\<close> of main.ts
  registers behind that middleware.
\<close>

definition is_space :: "char \<Rightarrow> bool" where
  "is_space c = (c \<in> set [CHR 0x09, CHR 0x0A, CHR 0x0B, CHR 0x0C, CHR 0x0D, CHR 0x20, CHR 0xA0])"

definition trim :: "string \<Rightarrow> string" where
  "trim s = rev (dropWhile is_space (rev (dropWhile is_space s)))"

definition checkApiKey :: "string \<Rightarrow> Request \<Rightarrow> Response option" where
  "checkApiKey apiKey req =
     (case avail (map_of (req_query req) ''api_key'') of
        None \<Rightarrow> Some \<lparr> res_status = 401, res_body = JMessage ''Access denied'' \<rparr>
      | Some submittedAPIKey \<Rightarrow>
          if trim submittedAPIKey \<noteq> apiKey
          then Some \<lparr> res_status = 401, res_body = JMessage ''Access denied'' \<rparr>
          else None)"

definition startAdminAPI :: "string \<Rightarrow> Request \<Rightarrow> world \<Rightarrow> Response \<times> world" where
  "startAdminAPI apiKey req w =
     (case checkApiKey apiKey req of
        Some denied \<Rightarrow> (denied, w)
      | None \<Rightarrow>
          if req_method req = POST \<and> req_path req = ''/api/remailer/control'' then
            (let w1 = (if truthy (map_of (req_query req) ''suspend_sender'')
                       then suspendSender (map_of (req_query req) ''suspend_sender'' = Some ''true'') w
                       else w);
                 w2 = (if truthy (map_of (req_query req) ''suspend_listener'')
                       then suspendListener (map_of (req_query req) ''suspend_listener'' = Some ''true'') w1
                       else w1)
             in (\<lparr> res_status = 200, res_body = JString ''done'' \<rparr>, showSummary w2))
          else (notFound req, w))"

section \<open>A relay as constructed, and one that is running\<close>

text \<open>
  \<open>new_DRemailer c\<close> is the object that \<^verbatim>\<open>new DRemailer(c)\<close> builds: the initial values of
  the fields of the class.  \<open>spool ms\<close> is a relay after \<^verbatim>\<open>init()\<close> and \<^verbatim>\<open>start()\<close> with
  the timer interval \<open>ms\<close>, the five directories under \<^verbatim>\<open>storage\<close> and a sender for the
  host \<^verbatim>\<open>smtp.example.org\<close>; \<open>spool_disk l\<close> holds the five directories, with the entries
  \<open>l\<close> in the parking one.
\<close>

definition new_DRemailer :: "DRemailerConfig \<Rightarrow> DRemailer" where
  "new_DRemailer c =
     \<lparr> smtpServer = False, mailSender = None, config = c, timerIntervalMs = 0,
       emlParkingQueue = [], emlDirectQueue = [], emlErrorQueue = [],
       emlParkingBackupQueue = [], emlDirectBackupQueue = [], emlScanning = False,
       emlParkingDir = None, emlDirectDir = None, emlErrorDir = None,
       emlParkingBackupDir = None, emlDirectBackupDir = None,
       status = \<lparr> ready = False, message = ''Need to call init() before use this class'' \<rparr>,
       listenerRunning = False, senderPaused = False, listenerPaused = False \<rparr>"

definition defaultConfig :: DRemailerConfig where
  "defaultConfig =
     \<lparr> listenerAddress = Some ''0.0.0.0'', listenerPort = Some 25, listenerSecure = None,
       listenerLmtp = None, senderSmtpHost = None, senderSmtpPort = None,
       senderSmtpSecure = None, senderIgnoreInvalidCert = None, senderLmtp = None,
       backupEnabled = None \<rparr>"

definition spool :: "int \<Rightarrow> DRemailer" where
  "spool ms =
     (new_DRemailer (defaultConfig\<lparr>senderSmtpHost := Some ''smtp.example.org''\<rparr>))
       \<lparr> smtpServer := True,
         mailSender := Some \<lparr> sender_status = \<lparr> ready = True, message = ''Init SUCCESS'' \<rparr>,
                               transporter = True \<rparr>,
         timerIntervalMs := ms,
         emlParkingDir := Some ''storage/eml-parking'',
         emlDirectDir := Some ''storage/eml-direct'',
         emlErrorDir := Some ''storage/eml-error'',
         emlParkingBackupDir := Some ''storage/eml-parking-backup'',
         emlDirectBackupDir := Some ''storage/eml-direct-backup'',
         status := \<lparr> ready = True, message = ''Listener started'' \<rparr>,
         listenerRunning := True \<rparr>"

definition spool_disk :: "listing \<Rightarrow> filesystem" where
  "spool_disk l =
     [(''storage/eml-parking'', l), (''storage/eml-direct'', []), (''storage/eml-error'', []),
      (''storage/eml-parking-backup'', []), (''storage/eml-direct-backup'', [])]"

text \<open>
  An upstream for the examples: the parser finds one sender and the recipients \<open>to\<close> in
  every file, and the transporter answers every submission with \<open>answer\<close>.
\<close>

definition upstream :: "to_field \<Rightarrow> (jserror + string) \<Rightarrow> env" where
  "upstream to answer =
     \<lparr> simpleParser = (\<lambda>bytes. Inr \<lparr> pm_from = Some \<lparr> addr_text = ''a@b.c'' \<rparr>,
                                     pm_to = to, pm_subject = Some ''hello'',
                                     pm_text = Some bytes, pm_html = None,
                                     pm_attachments = [] \<rparr>),
       sendMail = (\<lambda>m. answer) \<rparr>"

definition noon :: JsDate where
  "noon = \<lparr> year = 2024, month = 1, day = 2, hours = 12, minutes = 0, seconds = 5,
            milliseconds = 678 \<rparr>"

definition session1 :: "string \<Rightarrow> SMTPServerSession" where
  "session1 i = \<lparr> session_id = i,
                  envelope = \<lparr> mailFrom = Some \<lparr> address = ''a@b.c'' \<rparr>,
                               rcptTo = Some [\<lparr> address = ''x@y.z'' \<rparr>] \<rparr> \<rparr>"

definition anon :: "string \<Rightarrow> SMTPServerSession" where
  "anon i = \<lparr> session_id = i, envelope = \<lparr> mailFrom = None, rcptTo = None \<rparr> \<rparr>"

definition session2 :: "string \<Rightarrow> string \<Rightarrow> SMTPServerSession" where
  "session2 i a = \<lparr> session_id = i,
                    envelope = \<lparr> mailFrom = Some \<lparr> address = a \<rparr>,
                                 rcptTo = Some [\<lparr> address = ''x@y.z'' \<rparr>] \<rparr> \<rparr>"

definition mixed :: listing where
  "mixed = [(''a.eml'', File ''x''), (''notes.txt'', File ''y''), (''old.eml'', Folder)]"

text \<open>
  \<open>busy\<close> is a running relay with two messages parked and queued; \<open>rejecting\<close> is an
  upstream that refuses every submission.
\<close>

definition busy :: world where
  "busy = \<lparr> self = (spool 2000)\<lparr>emlParkingQueue := [''m.eml'', ''n.eml'']\<rparr>,
            disk = spool_disk [(''m.eml'', File ''x''), (''n.eml'', File ''y'')],
            trace = [] \<rparr>"

definition rejecting :: env where
  "rejecting = upstream (ToSingle \<lparr> addr_text = ''x@y.z'' \<rparr>) (Inl (Error ''550 rejected''))"

text \<open>
  \<open>undisclosed\<close> is the parse of a message with a sender and two \<^verbatim>\<open>To\<close> headers, each the
  empty group \<^verbatim>\<open>undisclosed-recipients:;\<close>: an array of two address objects, neither of which
  holds an address.
\<close>

definition undisclosed :: ParsedMail where
  "undisclosed =
     \<lparr> pm_from = Some \<lparr> addr_text = ''a@b.c'' \<rparr>,
       pm_to = ToArray [\<lparr> addr_text = ''undisclosed-recipients:;'' \<rparr>,
                        \<lparr> addr_text = ''undisclosed-recipients:;'' \<rparr>],
       pm_subject = Some ''hello'', pm_text = Some ''x'', pm_html = None,
       pm_attachments = [] \<rparr>"

section \<open>Observations on a trace\<close>

text \<open>
  What a trace holds of one kind: the renames started, the files unlinked, the answers
  given to the SMTP client, and the messages submitted to the upstream transporter.
\<close>

definition renames :: "event list \<Rightarrow> (path \<times> path) list" where
  "renames es = concat (map (\<lambda>e. case e of FsRename a b \<Rightarrow> [(a, b)] | _ \<Rightarrow> []) es)"

definition unlinks :: "event list \<Rightarrow> path list" where
  "unlinks es = concat (map (\<lambda>e. case e of FsUnlink a \<Rightarrow> [a] | _ \<Rightarrow> []) es)"

definition callbacks :: "event list \<Rightarrow> jserror option list" where
  "callbacks es = concat (map (\<lambda>e. case e of Callback r \<Rightarrow> [r] | _ \<Rightarrow> []) es)"

definition submissions :: "event list \<Rightarrow> MailOptions list" where
  "submissions es = concat (map (\<lambda>e. case e of SendMail m \<Rightarrow> [m] | _ \<Rightarrow> []) es)"

section \<open>The specification's words, for comparison\<close>

text \<open>
  \<open>ends_with suf s\<close>: the name \<open>s\<close> ends in \<open>suf\<close>.  \<open>spec_rescan l\<close> is the snapshot of a
  directory as the specification words it: the entries that are not directories and whose
  name has the extension \<^verbatim>\<open>.eml\<close>, sorted.  \<open>valid_date d\<close>: the fields of \<open>d\<close> are those of
  a date of the years 0 to 9999.
\<close>

definition ends_with :: "string \<Rightarrow> string \<Rightarrow> bool" where
  "ends_with suf s = (length suf \<le> length s \<and> drop (length s - length suf) s = suf)"

definition spec_rescan :: "listing \<Rightarrow> string list" where
  "spec_rescan l =
     sort (map fst (filter (\<lambda>item. \<not> isDirectory (snd item) \<and> ends_with ''.eml'' (fst item)) l))"

definition valid_date :: "JsDate \<Rightarrow> bool" where
  "valid_date d =
     (year d \<le> 9999 \<and> 1 \<le> month d \<and> month d \<le> 12 \<and> 1 \<le> day d \<and> day d \<le> 31 \<and>
      hours d \<le> 23 \<and> minutes d \<le> 59 \<and> seconds d \<le> 59 \<and> milliseconds d \<le> 999)"

section \<open>Pausing the sender and the listener\<close>

text \<open>
  C9, as the code has it: \<open>suspendSender b\<close> leaves \<open>senderPaused = b\<close> and
  \<open>suspendListener b\<close> leaves \<open>listenerPaused = b\<close>, whatever the state before; nothing
  else of the object and nothing of the disk changes, and a second call with the same
  \<open>b\<close> changes the object no further.  The line that tells of the pause or of its end is
  logged only when the flag changes (for the listener's un-pause, only with an SMTP
  server); \<open>suspendSender\<close> logs the debug line \<^verbatim>\<open>Suspending sender...\<close> at every call.
\<close>

theorem suspend_sets_flag:
  "self (suspendSender b w) = (self w)\<lparr>senderPaused := b\<rparr> \<and>
   disk (suspendSender b w) = disk w \<and>
   trace (suspendSender b w) =
     trace w @ [Log DEBUG ''Suspending sender...''] @
       (if senderPaused (self w) = b then []
        else if b then [Log WARNING ''Sender manual PAUSED'']
        else [Log INFO ''Sender manual UN-PAUSED'']) \<and>
   self (suspendSender b (suspendSender b w)) = self (suspendSender b w) \<and>
   self (suspendListener b w) = (self w)\<lparr>listenerPaused := b\<rparr> \<and>
   disk (suspendListener b w) = disk w \<and>
   trace (suspendListener b w) =
     trace w @
       (if listenerPaused (self w) = b then []
        else if b then [Log WARNING ''Listener manual PAUSED'']
        else if smtpServer (self w) then [Log INFO ''Listener manual UN-PAUSED'']
        else []) \<and>
   suspendListener b (suspendListener b w) = suspendListener b w"
  by (simp add: suspendSender_def suspendListener_def dlog_def emit_def Let_def)

theorem suspend_sets_flag_witness:
  "self (suspendSender True \<lparr> self = spool 2000, disk = spool_disk [], trace = [] \<rparr>)
     = (spool 2000)\<lparr>senderPaused := True\<rparr> \<and>
   trace (suspendSender True \<lparr> self = spool 2000, disk = spool_disk [], trace = [] \<rparr>)
     = [Log DEBUG ''Suspending sender...'', Log WARNING ''Sender manual PAUSED''] \<and>
   trace (suspendListener False \<lparr> self = spool 2000, disk = spool_disk [], trace = [] \<rparr>) = []"
  using suspend_sets_flag [of True "\<lparr> self = spool 2000, disk = spool_disk [], trace = [] \<rparr>"]
    suspend_sets_flag [of False "\<lparr> self = spool 2000, disk = spool_disk [], trace = [] \<rparr>"]
  by (simp add: spool_def new_DRemailer_def)

text \<open>
  C9 as stated fails: a call of \<open>suspendSender\<close> that does not change the flag logs a line
  all the same.
\<close>

theorem suspendSender_logs_without_change:
  "senderPaused (spool 2000) = False \<and>
   senderPaused (self (suspendSender False \<lparr> self = spool 2000, disk = spool_disk [], trace = [] \<rparr>)) = False \<and>
   trace (suspendSender False \<lparr> self = spool 2000, disk = spool_disk [], trace = [] \<rparr>)
     = [Log DEBUG ''Suspending sender...'']"
  by (simp add: suspendSender_def dlog_def emit_def Let_def spool_def new_DRemailer_def)

section \<open>The relay engine on an empty queue\<close>

text \<open>
  C10: with the parking directory available and the parking queue empty, \<open>forwardOne\<close>
  returns \<^verbatim>\<open>undefined\<close> and leaves the world as it is: no event (no forward, no rename,
  no unlink), the same disk, the same queues, status and pause flags.
\<close>

theorem forwardOne_empty_queue:
  assumes "truthy (emlParkingDir (self w))" and "emlParkingQueue (self w) = []"
  shows "forwardOne ev w = (RUndefined, w)"
  using assms by (auto simp: forwardOne_def truthy_def split: option.splits)

theorem forwardOne_empty_queue_witness:
  "truthy (emlParkingDir (spool 2000)) \<and> emlParkingQueue (spool 2000) = [] \<and>
   forwardOne (upstream ToUndefined (Inr ''250 OK''))
       \<lparr> self = spool 2000, disk = spool_disk [], trace = [] \<rparr>
     = (RUndefined, \<lparr> self = spool 2000, disk = spool_disk [], trace = [] \<rparr>)"
  using forwardOne_empty_queue [of "\<lparr> self = spool 2000, disk = spool_disk [], trace = [] \<rparr>"
      "upstream ToUndefined (Inr ''250 OK'')"]
  by (simp add: spool_def new_DRemailer_def truthy_def avail_def)

section \<open>Admission while the listener is paused\<close>

text \<open>
  C5: while \<open>listenerPaused\<close> is true, the DATA handler pipes the body into the null
  stream, answers the client with an error and calls \<^verbatim>\<open>onReject\<close> with it, and that is all:
  the object (its queues among the rest) and the disk are unchanged, so no file and no
  queue entry is created.  The error is the one of the pause, or the one of a relay that
  is not ready, which the handler tests first.
\<close>

theorem onData_listenerPaused:
  assumes "listenerPaused (self w)"
  shows "onData ev now stream session w =
     w\<lparr>trace := trace w @
         [OnReceiving (session_id session), PipeNull,
          Callback (Some (if ready (status (self w)) then Error ''Remailer paused, please try later''
                          else Error (''Remailer not ready: '' @ message (status (self w))))),
          OnReject (session_id session)
            (if ready (status (self w)) then Error ''Remailer paused, please try later''
             else Error (''Remailer not ready: '' @ message (status (self w))))]\<rparr>"
  using assms by (simp add: onData_def rejectData_def emit_def Let_def)

theorem onData_listenerPaused_witness:
  "listenerPaused ((spool 2000)\<lparr>listenerPaused := True\<rparr>) \<and>
   onData (upstream ToUndefined (Inr ''250 OK'')) noon ''body'' (session1 ''k5xw'')
       \<lparr> self = (spool 2000)\<lparr>listenerPaused := True\<rparr>, disk = spool_disk [], trace = [] \<rparr>
     = \<lparr> self = (spool 2000)\<lparr>listenerPaused := True\<rparr>, disk = spool_disk [],
         trace = [OnReceiving ''k5xw'', PipeNull,
                  Callback (Some (Error ''Remailer paused, please try later'')),
                  OnReject ''k5xw'' (Error ''Remailer paused, please try later'')] \<rparr>"
  using onData_listenerPaused [of "\<lparr> self = (spool 2000)\<lparr>listenerPaused := True\<rparr>,
      disk = spool_disk [], trace = [] \<rparr>" "upstream ToUndefined (Inr ''250 OK'')" noon "''body''"
      "session1 ''k5xw''"]
  by (simp add: spool_def new_DRemailer_def session1_def)

section \<open>Direct mode with the sender paused\<close>

lemma emlFileName_example:
  "emlFileName noon (session1 ''k5xw'') = ''20240102120005678_k5xw_a-b-c_x-y-z.eml''"
  by (simp add: emlFileName_def noon_def session1_def toISOString_def pad_def show_nat.simps
      is_digit_def sanitize_def)

lemma saveEmailToDisk_silent:
  assumes "saveEmailToDisk now stream session folder w = (r, w')"
  shows "callbacks (trace w') = callbacks (trace w) \<and> self w' = self w"
  using assms
  by (auto simp: saveEmailToDisk_def emit_def dlog_def Let_def callbacks_def split: sum.splits)

text \<open>
  In direct mode with the sender paused, a message that is saved gets no answer: the
  handler returns after the save, and neither calls the completion callback nor forwards.
\<close>

lemma onData_direct_paused_no_answer:
  assumes "ready (status (self w))" and "\<not> listenerPaused (self w)"
    and "timerIntervalMs (self w) \<le> 0" and "senderPaused (self w)"
    and "avail (emlDirectDir (self w)) = Some d"
    and "saveEmailToDisk now stream session d (emit (OnReceiving (session_id session)) w) = (Inr n, w1)"
  shows "onData ev now stream session w = w1 \<and> callbacks (trace w1) = callbacks (trace w)"
  using assms saveEmailToDisk_silent [OF assms(6)]
  by (simp add: onData_def Let_def emit_def callbacks_def)

text \<open>
  C1, at a relay in direct mode (timer 0) that is ready, with the listener live, the
  direct directory on disk and the sender paused: the message is written into the direct
  directory and not forwarded, but the completion callback is never called: the trace
  holds no \<open>Callback\<close>, so the client gets no 250.
\<close>

theorem onData_direct_paused_gives_no_250:
  "onData (upstream (ToSingle \<lparr> addr_text = ''x@y.z'' \<rparr>) (Inr ''250 OK'')) noon ''body''
       (session1 ''k5xw'')
       \<lparr> self = (spool 0)\<lparr>senderPaused := True\<rparr>, disk = spool_disk [], trace = [] \<rparr>
   = \<lparr> self = (spool 0)\<lparr>senderPaused := True\<rparr>,
       disk = [(''storage/eml-parking'', []),
               (''storage/eml-direct'',
                [(''20240102120005678_k5xw_a-b-c_x-y-z.eml'', File ''body'')]),
               (''storage/eml-error'', []), (''storage/eml-parking-backup'', []),
               (''storage/eml-direct-backup'', [])],
       trace = [OnReceiving ''k5xw'', OnSaving ''k5xw'',
                Log DEBUG ''Try to save email id: k5xw to storage/eml-direct'',
                FsWrite (''storage/eml-direct'', ''20240102120005678_k5xw_a-b-c_x-y-z.eml''),
                Log DEBUG ''email id k5xw saved to storage/eml-direct'', OnSaved ''k5xw''] \<rparr>"
proof -
  have s: "session_id (session1 ''k5xw'') = ''k5xw''"
    by (simp add: session1_def)
  show ?thesis
    by (simp add: onData_def emlFileName_example s saveEmailToDisk_def spool_def spool_disk_def
        new_DRemailer_def emit_def dlog_def avail_def fs_write_def Let_def)
qed

section \<open>The timer in the status snapshot\<close>

text \<open>
  C6: \<open>getSummary\<close> reports \<open>timer.sec\<close> as the interval in seconds, but \<open>timer.enabled\<close>
  the wrong way round: true exactly when the interval is not positive.
\<close>

theorem getSummary_timer_enabled_inverted:
  "enabled (timer (fst (getSummary w))) = (timerIntervalMs (self w) \<le> 0) \<and>
   sec (timer (fst (getSummary w))) = of_int (timerIntervalMs (self w)) / 1000"
  by (simp add: getSummary_def Let_def split: prod.splits)

lemma getSummary_timer_example:
  "enabled (timer (fst (getSummary \<lparr> self = spool 2000, disk = spool_disk [], trace = [] \<rparr>))) = False \<and>
   sec (timer (fst (getSummary \<lparr> self = spool 2000, disk = spool_disk [], trace = [] \<rparr>))) = 2 \<and>
   enabled (timer (fst (getSummary \<lparr> self = spool 0, disk = spool_disk [], trace = [] \<rparr>))) = True"
  by (simp add: getSummary_def Let_def spool_def new_DRemailer_def split: prod.splits)

section \<open>The shared secret of the control API\<close>

text \<open>
  The handler of main.ts is behind the key: a request without \<^verbatim>\<open>api_key\<close>, or with one
  that differs from the secret once trimmed, gets 401 and changes nothing.
\<close>

lemma startAdminAPI_denied:
  assumes "map_of (req_query req) ''api_key'' = None \<or>
           (\<exists>k. map_of (req_query req) ''api_key'' = Some k \<and> trim k \<noteq> apiKey)"
  shows "startAdminAPI apiKey req w = (\<lparr> res_status = 401, res_body = JMessage ''Access denied'' \<rparr>, w)"
  using assms by (auto simp: startAdminAPI_def checkApiKey_def avail_def)

text \<open>
  C7, at the handler of routes.ts, which takes the secret and never reads it: a request
  without \<^verbatim>\<open>api_key\<close> pauses the sender and is answered 200, and another one without
  \<^verbatim>\<open>api_key\<close> gets the rescan of the storage.
\<close>

theorem startRemailerControlApi_ignores_api_key:
  "fst (startRemailerControlApi ''dury''
          \<lparr> req_method = POST, req_path = ''/api/remailer/control'', req_query = [],
            req_body = [(''suspend_sender'', ''true'')] \<rparr>
          \<lparr> self = spool 2000, disk = spool_disk [], trace = [] \<rparr>)
     = \<lparr> res_status = 200, res_body = JString ''done'' \<rparr> \<and>
   senderPaused (self (snd (startRemailerControlApi ''dury''
          \<lparr> req_method = POST, req_path = ''/api/remailer/control'', req_query = [],
            req_body = [(''suspend_sender'', ''true'')] \<rparr>
          \<lparr> self = spool 2000, disk = spool_disk [], trace = [] \<rparr>))) = True \<and>
   senderPaused (spool 2000) = False \<and>
   fst (startRemailerControlApi ''dury''
          \<lparr> req_method = GET, req_path = ''/api/remailer/query/storage'', req_query = [],
            req_body = [] \<rparr>
          \<lparr> self = spool 2000, disk = spool_disk [(''a.eml'', File ''x'')], trace = [] \<rparr>)
     = \<lparr> res_status = 200,
         res_body = JStorage \<lparr> parking = [''a.eml''], direct = [], error = [],
                                parkingBackup = [], directBackup = [] \<rparr> \<rparr>"
  by code_simp

section \<open>A message without recipients\<close>

text \<open>
  A message without sender, without recipients, or with one recipient of empty text is
  rejected before the transporter is reached.
\<close>

lemma forwardEml_rejects_missing:
  assumes "ready (sender_status s)" and "transporter s"
    and "lookupFile (disk w) p = Some (File bytes)"
    and "simpleParser ev bytes = Inr m"
    and "pm_from m = None \<or> pm_to m = ToUndefined \<or> pm_to m = ToSingle \<lparr> addr_text = [] \<rparr>"
  shows "(fst (forwardEml ev s p w) = Inl (Error ''eml not contains <from> address'') \<or>
          fst (forwardEml ev s p w) = Inl (Error ''eml not contains <to> address'')) \<and>
         submissions (trace (snd (forwardEml ev s p w))) = submissions (trace w)"
  using assms
  by (auto simp: forwardEml_def reject_log_def falsy_to_def dlog_def emit_def submissions_def Let_def
      split: option.splits)

text \<open>
  A parse whose recipients are an array is never rejected by \<open>forwardEml\<close> itself, whatever
  the array holds: the test \<^verbatim>\<open>!to\<close> is false for an array, so the message is handed to the
  transporter and the outcome is the transporter's answer.
\<close>

lemma forwardEml_submits_array:
  assumes "ready (sender_status s)" and "transporter s"
    and "lookupFile (disk w) p = Some (File bytes)"
    and "simpleParser ev bytes = Inr m"
    and "pm_from m = Some f" and "pm_to m = ToArray xs"
  shows "fst (forwardEml ev s p w) =
           sendMail ev \<lparr> mo_from = addr_text f, mo_to = CArray (map addr_text xs),
                          mo_subject = pm_subject m, mo_text = pm_text m,
                          mo_html = avail (pm_html m), mo_attachments = pm_attachments m \<rparr> \<and>
         submissions (trace (snd (forwardEml ev s p w))) =
           submissions (trace w) @
           [\<lparr> mo_from = addr_text f, mo_to = CArray (map addr_text xs),
              mo_subject = pm_subject m, mo_text = pm_text m,
              mo_html = avail (pm_html m), mo_attachments = pm_attachments m \<rparr>]"
  using assms
  by (simp add: forwardEml_def falsy_to_def dlog_def emit_def submissions_def Let_def)

text \<open>
  C8, at a spool file that exists and parses to a message with a sender and two \<^verbatim>\<open>To\<close>
  headers without any address (\<open>undisclosed\<close>), for every transporter \<open>send\<close>: \<open>forwardEml\<close>
  does not reject the message as malformed; it submits it to the transporter, with the
  two header texts as recipients, and its outcome is whatever the transporter answers.
\<close>

theorem forwardEml_submits_address_less_array:
  "fst (forwardEml \<lparr> simpleParser = (\<lambda>bytes. Inr undisclosed), sendMail = send \<rparr>
          \<lparr> sender_status = \<lparr> ready = True, message = ''Init SUCCESS'' \<rparr>, transporter = True \<rparr>
          (''storage/eml-parking'', ''m.eml'') busy)
     = send \<lparr> mo_from = ''a@b.c'',
              mo_to = CArray [''undisclosed-recipients:;'', ''undisclosed-recipients:;''],
              mo_subject = Some ''hello'', mo_text = Some ''x'', mo_html = None,
              mo_attachments = [] \<rparr> \<and>
   submissions (trace (snd (forwardEml \<lparr> simpleParser = (\<lambda>bytes. Inr undisclosed), sendMail = send \<rparr>
          \<lparr> sender_status = \<lparr> ready = True, message = ''Init SUCCESS'' \<rparr>, transporter = True \<rparr>
          (''storage/eml-parking'', ''m.eml'') busy)))
     = [\<lparr> mo_from = ''a@b.c'',
          mo_to = CArray [''undisclosed-recipients:;'', ''undisclosed-recipients:;''],
          mo_subject = Some ''hello'', mo_text = Some ''x'', mo_html = None,
          mo_attachments = [] \<rparr>]"
proof -
  let ?ev = "\<lparr> simpleParser = (\<lambda>bytes. Inr undisclosed), sendMail = send \<rparr>"
  let ?s = "\<lparr> sender_status = \<lparr> ready = True, message = ''Init SUCCESS'' \<rparr>, transporter = True \<rparr>"
  have h: "ready (sender_status ?s)" "transporter ?s"
    "lookupFile (disk busy) (''storage/eml-parking'', ''m.eml'') = Some (File ''x'')"
    "simpleParser ?ev ''x'' = Inr undisclosed"
    "pm_from undisclosed = Some \<lparr> addr_text = ''a@b.c'' \<rparr>"
    "pm_to undisclosed = ToArray [\<lparr> addr_text = ''undisclosed-recipients:;'' \<rparr>,
                        \<lparr> addr_text = ''undisclosed-recipients:;'' \<rparr>]"
    by (simp_all add: busy_def spool_disk_def lookupFile_def undisclosed_def)
  have t: "trace busy = []"
    by (simp add: busy_def)
  show ?thesis
    using forwardEml_submits_array [OF h] t
    by (simp add: undisclosed_def avail_def submissions_def)
qed

section \<open>The name of a stored message\<close>

lemma digit_nth: "k < 10 \<Longrightarrow> is_digit (''0123456789'' ! k)"
  unfolding is_digit_def by (rule nth_mem) simp

lemma show_nat_digits: "\<forall>c \<in> set (show_nat n). is_digit c"
proof (induction n rule: show_nat.induct)
  case (1 n)
  show ?case
  proof (cases "n < 10")
    case True
    then show ?thesis by (subst show_nat.simps) (simp add: digit_nth)
  next
    case False
    then have "\<forall>c \<in> set (show_nat (n div 10)). is_digit c" using "1.IH" by simp
    moreover have "is_digit (''0123456789'' ! (n mod 10))" by (rule digit_nth) simp
    ultimately show ?thesis using False by (subst show_nat.simps) simp
  qed
qed

lemma show_nat_length: "0 < k \<Longrightarrow> n < 10 ^ k \<Longrightarrow> length (show_nat n) \<le> k"
proof (induction k arbitrary: n)
  case 0
  then show ?case by simp
next
  case (Suc k)
  show ?case
  proof (cases "n < 10")
    case True
    then show ?thesis by (subst show_nat.simps) simp
  next
    case False
    then have k: "0 < k" using Suc.prems by (cases k) auto
    have "n div 10 < 10 ^ k" using Suc.prems by (simp add: less_mult_imp_div_less mult.commute)
    then have "length (show_nat (n div 10)) \<le> k" using Suc.IH k by simp
    then show ?thesis using False by (subst show_nat.simps) simp
  qed
qed

lemma pad_length: "0 < k \<Longrightarrow> n < 10 ^ k \<Longrightarrow> length (pad k n) = k"
  using show_nat_length [of k n] by (simp add: pad_def)

lemma is_digit_zero: "is_digit (CHR ''0'')"
  by (simp add: is_digit_def)

lemma pad_digits: "filter is_digit (pad k n) = pad k n"
  using show_nat_digits [of n] by (auto simp: pad_def is_digit_zero filter_id_conv)

lemma currentDate_eq:
  "year d \<le> 9999 \<Longrightarrow> filter is_digit (toISOString d) =
     pad 4 (year d) @ pad 2 (month d) @ pad 2 (day d) @ pad 2 (hours d) @ pad 2 (minutes d) @
     pad 2 (seconds d) @ pad 3 (milliseconds d)"
  by (simp add: toISOString_def pad_digits is_digit_def)

lemma currentDate_length:
  assumes "valid_date d"
  shows "length (filter is_digit (toISOString d)) = 17"
proof -
  have "year d \<le> 9999" "year d < 10 ^ 4" "month d < 10 ^ 2" "day d < 10 ^ 2" "hours d < 10 ^ 2"
    "minutes d < 10 ^ 2" "seconds d < 10 ^ 2" "milliseconds d < 10 ^ 3"
    using assms by (simp_all add: valid_date_def)
  then show ?thesis by (simp add: currentDate_eq pad_length)
qed

lemma underscore_not_digit: "\<not> is_digit (CHR ''_'')"
  by (simp add: is_digit_def)

lemma emlFileName_shape:
  "\<exists>r. emlFileName d s = filter is_digit (toISOString d) @ CHR ''_'' # (session_id s @ CHR ''_'' # r)"
  by (simp add: emlFileName_def Let_def)

lemma sanitize_props: "length (sanitize a) = length a \<and> CHR ''@'' \<notin> set (sanitize a) \<and> CHR ''.'' \<notin> set (sanitize a)"
  by (auto simp: sanitize_def)

lemma first_separator:
  assumes "c \<notin> set a" and "c \<notin> set a'" and "a @ c # r = a' @ c # r'"
  shows "a = a' \<and> r = r'"
proof -
  have "takeWhile (\<lambda>x. x \<noteq> c) (a @ c # r) = a"
    using assms(1) by (auto simp: takeWhile_tail)
  moreover have "takeWhile (\<lambda>x. x \<noteq> c) (a' @ c # r') = a'"
    using assms(2) by (auto simp: takeWhile_tail)
  ultimately have "a = a'" using assms(3) by simp
  then show ?thesis using assms(3) by simp
qed

lemma emlFileName_injective_id:
  assumes "CHR ''_'' \<notin> set (session_id s1)" and "CHR ''_'' \<notin> set (session_id s2)"
    and "emlFileName d1 s1 = emlFileName d2 s2"
  shows "session_id s1 = session_id s2"
proof -
  let ?D1 = "filter is_digit (toISOString d1)" and ?D2 = "filter is_digit (toISOString d2)"
  have n1: "CHR ''_'' \<notin> set ?D1" and n2: "CHR ''_'' \<notin> set ?D2"
    by (simp_all add: underscore_not_digit)
  obtain r1 where e1: "emlFileName d1 s1 = ?D1 @ CHR ''_'' # (session_id s1 @ CHR ''_'' # r1)"
    using emlFileName_shape [of d1 s1] by (elim exE)
  obtain r2 where e2: "emlFileName d2 s2 = ?D2 @ CHR ''_'' # (session_id s2 @ CHR ''_'' # r2)"
    using emlFileName_shape [of d2 s2] by (elim exE)
  have e: "?D1 @ CHR ''_'' # (session_id s1 @ CHR ''_'' # r1) = ?D2 @ CHR ''_'' # (session_id s2 @ CHR ''_'' # r2)"
    using assms(3) unfolding e1 e2 .
  have "?D1 = ?D2 \<and> session_id s1 @ CHR ''_'' # r1 = session_id s2 @ CHR ''_'' # r2"
    by (rule first_separator [OF n1 n2 e])
  then have e': "session_id s1 @ CHR ''_'' # r1 = session_id s2 @ CHR ''_'' # r2" ..
  have "session_id s1 = session_id s2 \<and> r1 = r2"
    by (rule first_separator [OF assms(1) assms(2) e'])
  then show ?thesis ..
qed

lemma saveEmailToDisk_name:
  assumes "saveEmailToDisk now stream session folder w = (Inr fileName, w')"
  shows "fileName = emlFileName now session \<and> lookupFile (disk w') (folder, fileName) = Some (File stream)"
  using assms
  by (auto simp: saveEmailToDisk_def Let_def emit_def dlog_def fs_write_def lookupFile_def update_conv'
      split: sum.splits option.splits node.splits if_splits)

lemma sanitize_nth:
  "i < length a \<Longrightarrow>
     sanitize a ! i = (if a ! i = CHR ''@'' \<or> a ! i = CHR ''.'' then CHR ''-'' else a ! i)"
  by (simp add: sanitize_def)

text \<open>
  C4, as the code has it: the name under which \<open>saveEmailToDisk\<close> stores a message is the
  digits of the ISO time stamp (17 of them for a date of the years 0 to 9999), the session
  id, the sender and the recipients, joined by \<^verbatim>\<open>_\<close> and followed by \<^verbatim>\<open>.eml\<close>; in the
  sender and in each recipient every \<^verbatim>\<open>@\<close> and \<^verbatim>\<open>.\<close> is replaced by \<^verbatim>\<open>-\<close>, and the
  recipients are joined by \<^verbatim>\<open>-\<close>.  A missing sender is the placeholder \<^verbatim>\<open>bho\<close>; missing
  recipients give the empty text, with no placeholder.  The file of that name holds the
  bytes of the message.  Two messages whose session ids differ and hold no \<^verbatim>\<open>_\<close> (such are
  the ids of the SMTP library) are stored under different names.
\<close>

theorem saveEmailToDisk_fileName:
  assumes "saveEmailToDisk now stream session folder w = (Inr fileName, w')"
  shows "fileName =
           filter is_digit (toISOString now) @ ''_'' @ session_id session @ ''_'' @
           (case mailFrom (envelope session) of Some a \<Rightarrow> sanitize (address a) | None \<Rightarrow> ''bho'') @
           ''_'' @
           join ''-'' (map (\<lambda>a. sanitize (address a))
                        (case rcptTo (envelope session) of Some l \<Rightarrow> l | None \<Rightarrow> [])) @
           ''.eml'' \<and>
         lookupFile (disk w') (folder, fileName) = Some (File stream) \<and>
         (\<forall>a. length (sanitize a) = length a \<and>
              CHR ''@'' \<notin> set (sanitize a) \<and> CHR ''.'' \<notin> set (sanitize a) \<and>
              (\<forall>i < length a. sanitize a ! i =
                 (if a ! i = CHR ''@'' \<or> a ! i = CHR ''.'' then CHR ''-'' else a ! i))) \<and>
         (\<forall>c \<in> set (filter is_digit (toISOString now)). is_digit c) \<and>
         (valid_date now \<longrightarrow> length (filter is_digit (toISOString now)) = 17) \<and>
         (\<forall>now2 stream2 session2 folder2 w2 fileName2 w2'.
            saveEmailToDisk now2 stream2 session2 folder2 w2 = (Inr fileName2, w2') \<and>
            CHR ''_'' \<notin> set (session_id session) \<and> CHR ''_'' \<notin> set (session_id session2) \<and>
            session_id session \<noteq> session_id session2
            \<longrightarrow> fileName \<noteq> fileName2)"
proof -
  have ns: "fileName = emlFileName now session \<and>
      lookupFile (disk w') (folder, fileName) = Some (File stream)"
    by (rule saveEmailToDisk_name [OF assms])
  from ns have name: "fileName = emlFileName now session" ..
  from ns have stored: "lookupFile (disk w') (folder, fileName) = Some (File stream)" ..
  have format: "emlFileName now session =
           filter is_digit (toISOString now) @ ''_'' @ session_id session @ ''_'' @
           (case mailFrom (envelope session) of Some a \<Rightarrow> sanitize (address a) | None \<Rightarrow> ''bho'') @
           ''_'' @
           join ''-'' (map (\<lambda>a. sanitize (address a))
                        (case rcptTo (envelope session) of Some l \<Rightarrow> l | None \<Rightarrow> [])) @
           ''.eml''"
    by (simp add: emlFileName_def Let_def)
  have san: "\<forall>a. length (sanitize a) = length a \<and>
              CHR ''@'' \<notin> set (sanitize a) \<and> CHR ''.'' \<notin> set (sanitize a) \<and>
              (\<forall>i < length a. sanitize a ! i =
                 (if a ! i = CHR ''@'' \<or> a ! i = CHR ''.'' then CHR ''-'' else a ! i))"
    by (intro allI conjI impI) (simp_all add: sanitize_props sanitize_nth)
  have digits: "\<forall>c \<in> set (filter is_digit (toISOString now)). is_digit c"
    by simp
  have len: "valid_date now \<longrightarrow> length (filter is_digit (toISOString now)) = 17"
    by (rule impI) (rule currentDate_length)
  have uniq: "\<forall>now2 stream2 session2 folder2 w2 fileName2 w2'.
            saveEmailToDisk now2 stream2 session2 folder2 w2 = (Inr fileName2, w2') \<and>
            CHR ''_'' \<notin> set (session_id session) \<and> CHR ''_'' \<notin> set (session_id session2) \<and>
            session_id session \<noteq> session_id session2
            \<longrightarrow> fileName \<noteq> fileName2"
  proof (intro allI impI)
    fix now2 stream2 session2 folder2 w2 fileName2 w2'
    assume h: "saveEmailToDisk now2 stream2 session2 folder2 w2 = (Inr fileName2, w2') \<and>
            CHR ''_'' \<notin> set (session_id session) \<and> CHR ''_'' \<notin> set (session_id session2) \<and>
            session_id session \<noteq> session_id session2"
    then have "saveEmailToDisk now2 stream2 session2 folder2 w2 = (Inr fileName2, w2')" ..
    then have "fileName2 = emlFileName now2 session2 \<and>
      lookupFile (disk w2') (folder2, fileName2) = Some (File stream2)"
      by (rule saveEmailToDisk_name)
    then have name2: "fileName2 = emlFileName now2 session2" ..
    from h have u1: "CHR ''_'' \<notin> set (session_id session)"
      and u2: "CHR ''_'' \<notin> set (session_id session2)"
      and ne: "session_id session \<noteq> session_id session2"
      by simp_all
    show "fileName \<noteq> fileName2"
    proof
      assume "fileName = fileName2"
      then have "emlFileName now session = emlFileName now2 session2"
        using name name2 by simp
      then have "session_id session = session_id session2"
        by (rule emlFileName_injective_id [OF u1 u2])
      then show False using ne by simp
    qed
  qed
  have fmt: "fileName =
           filter is_digit (toISOString now) @ ''_'' @ session_id session @ ''_'' @
           (case mailFrom (envelope session) of Some a \<Rightarrow> sanitize (address a) | None \<Rightarrow> ''bho'') @
           ''_'' @
           join ''-'' (map (\<lambda>a. sanitize (address a))
                        (case rcptTo (envelope session) of Some l \<Rightarrow> l | None \<Rightarrow> [])) @
           ''.eml''"
    by (rule trans [OF name format])
  show ?thesis
    by (intro conjI) (fact fmt stored san digits len uniq)+
qed

theorem saveEmailToDisk_fileName_witness:
  "fst (saveEmailToDisk noon ''body'' (session1 ''k5xw'') ''storage/eml-parking''
          \<lparr> self = spool 2000, disk = spool_disk [], trace = [] \<rparr>)
     = Inr ''20240102120005678_k5xw_a-b-c_x-y-z.eml'' \<and>
   valid_date noon \<and>
   lookupFile (disk (snd (saveEmailToDisk noon ''body'' (session1 ''k5xw'') ''storage/eml-parking''
          \<lparr> self = spool 2000, disk = spool_disk [], trace = [] \<rparr>)))
       (''storage/eml-parking'', ''20240102120005678_k5xw_a-b-c_x-y-z.eml'') = Some (File ''body'') \<and>
   length (filter is_digit (toISOString noon)) = 17"
proof -
  let ?w = "\<lparr> self = spool 2000, disk = spool_disk [], trace = [] \<rparr>"
  let ?r = "saveEmailToDisk noon ''body'' (session1 ''k5xw'') ''storage/eml-parking'' ?w"
  have f: "fst ?r = Inr ''20240102120005678_k5xw_a-b-c_x-y-z.eml''"
    by code_simp
  have v: "valid_date noon"
    by (simp add: valid_date_def noon_def)
  have h: "?r = (Inr ''20240102120005678_k5xw_a-b-c_x-y-z.eml'', snd ?r)"
    using f by (simp add: prod_eq_iff)
  show ?thesis
    using saveEmailToDisk_fileName [OF h] f v by simp
qed

text \<open>
  C4 as stated fails: a message without recipients is stored with an empty last component,
  not with a placeholder; and two session ids that differ can give one name when an id
  holds the separator \<^verbatim>\<open>_\<close>.
\<close>

theorem saveEmailToDisk_fileName_counterexample:
  "fst (saveEmailToDisk noon ''body'' (anon ''k5xw'') ''storage/eml-parking''
          \<lparr> self = spool 2000, disk = spool_disk [], trace = [] \<rparr>)
     = Inr ''20240102120005678_k5xw_bho_.eml'' \<and>
   fst (saveEmailToDisk noon ''body'' (session2 ''k5'' ''xw_a@b.c'') ''storage/eml-parking''
          \<lparr> self = spool 2000, disk = spool_disk [], trace = [] \<rparr>)
     = Inr ''20240102120005678_k5_xw_a-b-c_x-y-z.eml'' \<and>
   fst (saveEmailToDisk noon ''body'' (session2 ''k5_xw'' ''a@b.c'') ''storage/eml-parking''
          \<lparr> self = spool 2000, disk = spool_disk [], trace = [] \<rparr>)
     = Inr ''20240102120005678_k5_xw_a-b-c_x-y-z.eml''"
  by code_simp

section \<open>Rescanning the spool\<close>

lemma split_length: "length (split c s) = Suc (length (filter (\<lambda>x. x = c) s))"
  by (induction s) (auto split: list.splits)

lemma split_not_Nil: "split c s \<noteq> []"
  using split_length [of c s] by auto

lemma split_no_sep: "c \<notin> set t \<Longrightarrow> split c t = [t]"
  by (induction t) auto

lemma last_split_Cons:
  "last (split c (x # xs)) = (if x \<noteq> c \<and> c \<notin> set xs then x # last (split c xs) else last (split c xs))"
proof (cases "x = c")
  case True
  then show ?thesis by (simp add: split_not_Nil)
next
  case False
  obtain y ys where s: "split c xs = y # ys"
    using split_not_Nil [of c xs] by (cases "split c xs") auto
  show ?thesis
  proof (cases "c \<in> set xs")
    case True
    then have "filter (\<lambda>x. x = c) xs \<noteq> []"
      by (auto simp: filter_empty_conv)
    then have "length (split c xs) \<ge> 2"
      by (cases "filter (\<lambda>x. x = c) xs") (simp_all add: split_length)
    then have "ys \<noteq> []" using s by auto
    then show ?thesis using False True s by simp
  next
    case F2: False
    then show ?thesis using False by (simp add: split_no_sep)
  qed
qed

lemma last_split_free: "c \<notin> set (last (split c s))"
  by (induction s) (auto simp: last_split_Cons simp del: split.simps(2))

lemma last_split_decomp: "s = last (split c s) \<or> (\<exists>p. s = p @ c # last (split c s))"
proof (induction s)
  case Nil
  then show ?case by simp
next
  case (Cons x xs)
  show ?case
  proof (cases "x \<noteq> c \<and> c \<notin> set xs")
    case True
    then have "last (split c (x # xs)) = x # xs" by (simp add: split_no_sep)
    then show ?thesis by simp
  next
    case False
    then have l: "last (split c (x # xs)) = last (split c xs)"
      by (simp add: last_split_Cons del: split.simps(2))
    from Cons.IH show ?thesis
    proof
      assume e: "xs = last (split c xs)"
      then have "c \<notin> set xs" using last_split_free [of c xs] by simp
      with False have "x = c" by simp
      then have "x # xs = [] @ c # last (split c (x # xs))" using e l by simp
      then show ?thesis by blast
    next
      assume "\<exists>p. xs = p @ c # last (split c xs)"
      then obtain p where "xs = p @ c # last (split c xs)" ..
      then have "x # xs = (x # p) @ c # last (split c (x # xs))" using l by simp
      then show ?thesis by blast
    qed
  qed
qed

lemma last_split_append: "c \<notin> set t \<Longrightarrow> last (split c (p @ c # t)) = t"
  by (induction p) (auto simp: last_split_Cons split_no_sep split_not_Nil simp del: split.simps(2))

lemma ends_with_iff: "ends_with suf s \<longleftrightarrow> (\<exists>p. s = p @ suf)"
proof
  assume "ends_with suf s"
  then have "s = take (length s - length suf) s @ suf"
    by (metis append_take_drop_id ends_with_def)
  then show "\<exists>p. s = p @ suf" ..
next
  assume "\<exists>p. s = p @ suf"
  then show "ends_with suf s" by (auto simp: ends_with_def)
qed

text \<open>
  The filter of the scans, exactly: it keeps the entries that are not directories and
  whose name ends in \<^verbatim>\<open>.eml\<close>, and the one named \<^verbatim>\<open>eml\<close>.  So where the directory is
  enumerated in the order of the names and no file is named \<^verbatim>\<open>eml\<close>, the names kept are the
  snapshot of the specification.
\<close>

lemma keepExt_exact:
  "keepExt ''eml'' (n, k) = (\<not> isDirectory k \<and> (ends_with ''.eml'' n \<or> n = ''eml''))"
proof -
  have "last (split (CHR ''.'') n) = ''eml'' \<longleftrightarrow> (\<exists>p. n = p @ ''.eml'') \<or> n = ''eml''"
  proof
    assume l: "last (split (CHR ''.'') n) = ''eml''"
    from last_split_decomp [of n "CHR ''.''"] show "(\<exists>p. n = p @ ''.eml'') \<or> n = ''eml''"
    proof
      assume "n = last (split (CHR ''.'') n)"
      then show ?thesis using l by simp
    next
      assume "\<exists>p. n = p @ CHR ''.'' # last (split (CHR ''.'') n)"
      then show ?thesis using l by simp
    qed
  next
    assume "(\<exists>p. n = p @ ''.eml'') \<or> n = ''eml''"
    then show "last (split (CHR ''.'') n) = ''eml''"
    proof
      assume "\<exists>p. n = p @ ''.eml''"
      then obtain p where "n = p @ CHR ''.'' # ''eml''" by auto
      moreover have "CHR ''.'' \<notin> set ''eml''" by simp
      ultimately show ?thesis
        using last_split_append [of "CHR ''.''" "''eml''" p] by simp
    next
      assume "n = ''eml''"
      then show ?thesis by simp
    qed
  qed
  then show ?thesis by (simp add: keepExt_def ends_with_iff)
qed

lemma kept_meets_spec:
  assumes "sorted (map fst l)" and "\<forall>k. (''eml'', k) \<in> set l \<longrightarrow> isDirectory k"
  shows "map fst (filter (keepExt ''eml'') l) = spec_rescan l"
proof -
  have "filter (keepExt ''eml'') l =
        filter (\<lambda>item. \<not> isDirectory (snd item) \<and> ends_with ''.eml'' (fst item)) l"
  proof (rule filter_cong [OF refl])
    fix item
    assume i: "item \<in> set l"
    obtain n k where nk: "item = (n, k)" by (cases item)
    have "n = ''eml'' \<longrightarrow> isDirectory k" using assms(2) i nk by blast
    then show "keepExt ''eml'' item =
      (\<not> isDirectory (snd item) \<and> ends_with ''.eml'' (fst item))"
      using nk keepExt_exact [of n k] by auto
  qed
  moreover have "sorted (map fst (filter (\<lambda>item. \<not> isDirectory (snd item) \<and> ends_with ''.eml'' (fst item)) l))"
    using assms(1) by (rule sorted_filter)
  ultimately show ?thesis
    by (simp add: spec_rescan_def sorted_sort_id)
qed

lemma isStorageReady_ok:
  assumes "emlParkingDir (self w) = Some pd" and "pd \<noteq> []" and "map_of (disk w) pd = Some lp"
    and "emlDirectDir (self w) = Some dd" and "dd \<noteq> []" and "map_of (disk w) dd = Some ld"
    and "emlErrorDir (self w) = Some ed" and "ed \<noteq> []" and "map_of (disk w) ed = Some le"
    and "emlParkingBackupDir (self w) = Some pbd" and "pbd \<noteq> []" and "map_of (disk w) pbd = Some lpb"
    and "emlDirectBackupDir (self w) = Some dbd" and "dbd \<noteq> []" and "map_of (disk w) dbd = Some ldb"
  shows "isStorageReady True w = (True, w\<lparr>trace := trace w @ [Log DEBUG ''Check existing'']\<rparr>)"
  using assms
  by (simp add: isStorageReady_def truthy_def avail_def existsSync_def existsDir_def dlog_def emit_def Let_def)

lemma scanStorageSync_ok:
  assumes "emlParkingDir (self w) = Some pd" and "pd \<noteq> []" and "map_of (disk w) pd = Some lp"
    and "emlDirectDir (self w) = Some dd" and "dd \<noteq> []" and "map_of (disk w) dd = Some ld"
    and "emlErrorDir (self w) = Some ed" and "ed \<noteq> []" and "map_of (disk w) ed = Some le"
    and "emlParkingBackupDir (self w) = Some pbd" and "pbd \<noteq> []" and "map_of (disk w) pbd = Some lpb"
    and "emlDirectBackupDir (self w) = Some dbd" and "dbd \<noteq> []" and "map_of (disk w) dbd = Some ldb"
    and "\<not> emlScanning (self w)"
  shows "scanStorageSync w =
     (Inr (Some \<lparr> parking = map fst (filter (keepExt ''eml'') lp),
                   direct = map fst (filter (keepExt ''eml'') ld),
                   error = map fst (filter (keepExt ''eml'') le),
                   parkingBackup = map fst (filter (keepExt ''eml'') lpb),
                   directBackup = map fst (filter (keepExt ''eml'') ldb) \<rparr>),
      w\<lparr>self := (self w)\<lparr>emlParkingQueue := map fst (filter (keepExt ''eml'') lp),
                           emlDirectQueue := map fst (filter (keepExt ''eml'') ld),
                           emlErrorQueue := map fst (filter (keepExt ''eml'') le),
                           emlParkingBackupQueue := map fst (filter (keepExt ''eml'') lpb),
                           emlDirectBackupQueue := map fst (filter (keepExt ''eml'') ldb),
                           status := \<lparr>ready = True, message = ''eml files scanning end''\<rparr>\<rparr>,
        trace := trace w @ [Log DEBUG ''Scanning eml files...'', Log DEBUG ''Check existing'',
                            Log DEBUG ''eml files scanning end'']\<rparr>)"
proof -
  let ?w = "w\<lparr>trace := trace w @ [Log DEBUG ''Scanning eml files...'']\<rparr>"
  have r: "isStorageReady True ?w = (True, ?w\<lparr>trace := trace ?w @ [Log DEBUG ''Check existing'']\<rparr>)"
    by (rule isStorageReady_ok [of ?w pd lp dd ld ed le pbd lpb dbd ldb])
      (simp_all add: assms)
  show ?thesis
    using assms
    by (simp add: scanStorageSync_def r readEml_def dlog_def emit_def storageOf_def Let_def)
qed

lemma scanStorageAsync_ok:
  assumes "emlParkingDir (self w) = Some pd" and "pd \<noteq> []" and "map_of (disk w) pd = Some lp"
    and "emlDirectDir (self w) = Some dd" and "dd \<noteq> []" and "map_of (disk w) dd = Some ld"
    and "emlErrorDir (self w) = Some ed" and "ed \<noteq> []" and "map_of (disk w) ed = Some le"
    and "emlParkingBackupDir (self w) = Some pbd" and "pbd \<noteq> []" and "map_of (disk w) pbd = Some lpb"
    and "emlDirectBackupDir (self w) = Some dbd" and "dbd \<noteq> []" and "map_of (disk w) dbd = Some ldb"
    and "\<not> emlScanning (self w)"
  shows "scanStorageAsync w =
     (Inr \<lparr> parking = map fst (filter (keepExt ''eml'') lp),
             direct = map fst (filter (keepExt ''eml'') ld),
             error = map fst (filter (keepExt ''eml'') le),
             parkingBackup = map fst (filter (keepExt ''eml'') lpb),
             directBackup = map fst (filter (keepExt ''eml'') ldb) \<rparr>,
      w\<lparr>self := (self w)\<lparr>emlParkingQueue := map fst (filter (keepExt ''eml'') lp),
                           emlDirectQueue := map fst (filter (keepExt ''eml'') ld),
                           emlErrorQueue := map fst (filter (keepExt ''eml'') le),
                           emlParkingBackupQueue := map fst (filter (keepExt ''eml'') lpb),
                           emlDirectBackupQueue := map fst (filter (keepExt ''eml'') ldb)\<rparr>,
        trace := trace w @ [Log DEBUG ''Scanning eml files...'', Log DEBUG ''Check existing'',
                            Log DEBUG ''Start async scan parking'', Log DEBUG ''Start async scan direct'',
                            Log DEBUG ''Start async scan error'',
                            Log DEBUG ''Start async scan parking backup'',
                            Log DEBUG ''Start async scan direct backup'',
                            Log DEBUG ''End async scan'']\<rparr>)"
proof -
  let ?w = "w\<lparr>trace := trace w @ [Log DEBUG ''Scanning eml files...'']\<rparr>"
  have r: "isStorageReady True ?w = (True, ?w\<lparr>trace := trace ?w @ [Log DEBUG ''Check existing'']\<rparr>)"
    by (rule isStorageReady_ok [of ?w pd lp dd ld ed le pbd lpb dbd ldb])
      (simp_all add: assms)
  show ?thesis
    using assms
    by (simp add: scanStorageAsync_def r findFiles_def avail_def dlog_def emit_def storageOf_def Let_def)
qed

text \<open>
  With the five directories set and on disk and no scan in progress, both rescans replace
  each of the five queues by the names kept of its directory, in the order of the
  enumeration, and leave the disk as it is.
\<close>

lemma rescan_snapshot:
  assumes "emlParkingDir (self w) = Some pd" and "pd \<noteq> []" and "map_of (disk w) pd = Some lp"
    and "emlDirectDir (self w) = Some dd" and "dd \<noteq> []" and "map_of (disk w) dd = Some ld"
    and "emlErrorDir (self w) = Some ed" and "ed \<noteq> []" and "map_of (disk w) ed = Some le"
    and "emlParkingBackupDir (self w) = Some pbd" and "pbd \<noteq> []" and "map_of (disk w) pbd = Some lpb"
    and "emlDirectBackupDir (self w) = Some dbd" and "dbd \<noteq> []" and "map_of (disk w) dbd = Some ldb"
    and "\<not> emlScanning (self w)"
  shows "(let snapshot = \<lparr> parking = map fst (filter (keepExt ''eml'') lp),
                           direct = map fst (filter (keepExt ''eml'') ld),
                           error = map fst (filter (keepExt ''eml'') le),
                           parkingBackup = map fst (filter (keepExt ''eml'') lpb),
                           directBackup = map fst (filter (keepExt ''eml'') ldb) \<rparr>
          in fst (scanStorageSync w) = Inr (Some snapshot) \<and>
             storageOf (self (snd (scanStorageSync w))) = snapshot \<and>
             disk (snd (scanStorageSync w)) = disk w \<and>
             fst (scanStorageAsync w) = Inr snapshot \<and>
             storageOf (self (snd (scanStorageAsync w))) = snapshot \<and>
             disk (snd (scanStorageAsync w)) = disk w)"
  by (simp add: scanStorageSync_ok [OF assms] scanStorageAsync_ok [OF assms] storageOf_def Let_def)

lemma rescan_example:
  "sorted (map fst mixed) \<and>
   fst (scanStorageSync \<lparr> self = spool 2000, disk = spool_disk mixed, trace = [] \<rparr>)
     = Inr (Some \<lparr> parking = spec_rescan mixed, direct = [], error = [], parkingBackup = [],
                   directBackup = [] \<rparr>) \<and>
   spec_rescan mixed = [''a.eml'']"
  by code_simp

text \<open>
  C3, at a relay whose storage is ready, with no scan in progress and a parking directory
  that holds the two regular files \<^verbatim>\<open>a.eml\<close> and \<^verbatim>\<open>eml\<close>, enumerated in that order: both
  rescans put the name \<^verbatim>\<open>eml\<close>, which has no extension, into the parking snapshot, where
  the specification's snapshot holds \<^verbatim>\<open>a.eml\<close> alone.
\<close>

theorem rescan_keeps_name_eml:
  "fst (scanStorageSync
         \<lparr> self = spool 2000, disk = spool_disk [(''a.eml'', File ''x''), (''eml'', File ''y'')],
           trace = [] \<rparr>)
     = Inr (Some \<lparr> parking = [''a.eml'', ''eml''], direct = [], error = [], parkingBackup = [],
                   directBackup = [] \<rparr>) \<and>
   emlParkingQueue (self (snd (scanStorageSync
         \<lparr> self = spool 2000, disk = spool_disk [(''a.eml'', File ''x''), (''eml'', File ''y'')],
           trace = [] \<rparr>)))
     = [''a.eml'', ''eml''] \<and>
   fst (scanStorageAsync
         \<lparr> self = spool 2000, disk = spool_disk [(''a.eml'', File ''x''), (''eml'', File ''y'')],
           trace = [] \<rparr>)
     = Inr \<lparr> parking = [''a.eml'', ''eml''], direct = [], error = [], parkingBackup = [],
             directBackup = [] \<rparr> \<and>
   sorted (map fst [(''a.eml'', File ''x''), (''eml'', File ''y'')]) = True \<and>
   ends_with ''.eml'' ''eml'' = False \<and>
   spec_rescan [(''a.eml'', File ''x''), (''eml'', File ''y'')] = [''a.eml'']"
  by code_simp

section \<open>A forward that fails\<close>

lemma renames_append [simp]: "renames (xs @ ys) = renames xs @ renames ys"
  by (simp add: renames_def)

lemma unlinks_append [simp]: "unlinks (xs @ ys) = unlinks xs @ unlinks ys"
  by (simp add: unlinks_def)

lemma emit_simps [simp]:
  "self (emit e w) = self w" "disk (emit e w) = disk w" "trace (emit e w) = trace w @ [e]"
  by (simp_all add: emit_def)

lemma dlog_simps [simp]:
  "self (dlog l m w) = self w" "disk (dlog l m w) = disk w" "trace (dlog l m w) = trace w @ [Log l m]"
  by (simp_all add: dlog_def)

lemma renames_Nil [simp]: "renames [] = []"
  by (simp add: renames_def)

lemma renames_Cons [simp]:
  "renames (e # es) = (case e of FsRename a b \<Rightarrow> [(a, b)] | _ \<Rightarrow> []) @ renames es"
  by (simp add: renames_def)

lemma unlinks_Nil [simp]: "unlinks [] = []"
  by (simp add: unlinks_def)

lemma unlinks_Cons [simp]:
  "unlinks (e # es) = (case e of FsUnlink a \<Rightarrow> [a] | _ \<Rightarrow> []) @ unlinks es"
  by (simp add: unlinks_def)

lemma forwardEml_self: "self (snd (forwardEml ev s p w)) = self w"
  by (simp add: forwardEml_def reject_log_def Let_def split: option.splits node.splits sum.splits)

lemma forwardEml_disk: "disk (snd (forwardEml ev s p w)) = disk w"
  by (simp add: forwardEml_def reject_log_def Let_def split: option.splits node.splits sum.splits)

lemma forwardEml_renames: "renames (trace (snd (forwardEml ev s p w))) = renames (trace w)"
  by (simp add: forwardEml_def reject_log_def Let_def split: option.splits node.splits sum.splits)

lemma forwardEml_unlinks: "unlinks (trace (snd (forwardEml ev s p w))) = unlinks (trace w)"
  by (simp add: forwardEml_def reject_log_def Let_def split: option.splits node.splits sum.splits)

lemma forwardEml_result:
  "disk w1 = disk w2 \<Longrightarrow> fst (forwardEml ev s p w1) = fst (forwardEml ev s p w2)"
  by (simp add: forwardEml_def reject_log_def Let_def split: option.splits node.splits sum.splits)

lemma fs_rename_moves:
  assumes "lookupFile fs (pd, n) = Some (File bytes)" and "existsDir fs ed" and "ed \<noteq> pd"
    and "lookupFile fs (ed, n) \<noteq> Some Folder"
  shows "\<exists>fs'. fs_rename fs (pd, n) (ed, n) = Inr fs' \<and> lookupFile fs' (pd, n) = None \<and>
           lookupFile fs' (ed, n) = Some (File bytes)"
proof -
  obtain sl where sl: "map_of fs pd = Some sl" "map_of sl n = Some (File bytes)"
    using assms(1) by (auto simp: lookupFile_def split: option.splits)
  obtain dl where dl: "map_of fs ed = Some dl"
    using assms(2) by (auto simp: existsDir_def)
  have nf: "map_of dl n \<noteq> Some Folder"
    using assms(4) dl by (simp add: lookupFile_def)
  let ?fs1 = "AList.update pd (AList.delete n sl) fs"
  have d1: "map_of ?fs1 ed = Some dl"
    using dl assms(3) by (simp add: update_conv')
  let ?fs' = "AList.update ed (AList.delete n dl @ [(n, File bytes)]) ?fs1"
  have r: "fs_rename fs (pd, n) (ed, n) = Inr ?fs'"
    using sl d1 nf by (cases "map_of dl n") (auto simp: fs_rename_def Let_def split: node.splits)
  have a: "lookupFile ?fs' (pd, n) = None"
    using assms(3) by (simp add: lookupFile_def update_conv' delete_conv')
  have b: "lookupFile ?fs' (ed, n) = Some (File bytes)"
    by (simp add: lookupFile_def update_conv' delete_conv' map_of_append map_add_def)
  show ?thesis using r a b by blast
qed

lemma moveToError_self: "self (moveToError p e w) = self w"
  by (simp add: moveToError_def Let_def split: option.splits sum.splits)

lemma moveToError_unlinks: "unlinks (trace (moveToError p e w)) = unlinks (trace w)"
  by (simp add: moveToError_def Let_def split: option.splits sum.splits)

lemma moveToError_renames:
  "renames (trace (moveToError p e w)) = renames (trace w) @
     (case avail (emlErrorDir (self w)) of None \<Rightarrow> [] | Some ed \<Rightarrow> [(p, (ed, snd p))])"
  by (simp add: moveToError_def basename_def Let_def split: option.splits sum.splits)

lemma moveToError_disk:
  "disk (moveToError p e w) =
     (case avail (emlErrorDir (self w)) of
        None \<Rightarrow> disk w
      | Some ed \<Rightarrow> (case fs_rename (disk w) p (ed, snd p) of Inl x \<Rightarrow> disk w | Inr d \<Rightarrow> d))"
  by (simp add: moveToError_def basename_def Let_def split: option.splits sum.splits)

lemma forward_result:
  "fst (forward ev p w) =
     (case mailSender (self w) of
        None \<Rightarrow> Inl (Error ''Cannot forward, <mailSender> is not ready'')
      | Some s \<Rightarrow> fst (forwardEml ev s p w))"
proof (cases "mailSender (self w)")
  case None
  then show ?thesis by (simp add: forward_def reject_log_def Let_def)
next
  case (Some s)
  have "fst (forwardEml ev s p (emit (OnForwarding p) w)) = fst (forwardEml ev s p w)"
    by (rule forwardEml_result) simp
  then show ?thesis
    using Some by (auto simp: forward_def Let_def split: prod.splits sum.splits)
qed

lemma forward_result_cong:
  "mailSender (self w1) = mailSender (self w2) \<Longrightarrow> disk w1 = disk w2 \<Longrightarrow>
     fst (forward ev p w1) = fst (forward ev p w2)"
  using forwardEml_result [of w1 w2] by (simp add: forward_result split: option.splits)

lemma forward_failure:
  assumes "fst (forward ev p w) = Inl err"
  shows "self (snd (forward ev p w)) = self w \<and>
         unlinks (trace (snd (forward ev p w))) = unlinks (trace w) \<and>
         renames (trace (snd (forward ev p w))) = renames (trace w) @
           (case mailSender (self w) of
              None \<Rightarrow> []
            | Some s \<Rightarrow> (case avail (emlErrorDir (self w)) of None \<Rightarrow> [] | Some ed \<Rightarrow> [(p, (ed, snd p))])) \<and>
         disk (snd (forward ev p w)) =
           (case mailSender (self w) of
              None \<Rightarrow> disk w
            | Some s \<Rightarrow>
                (case avail (emlErrorDir (self w)) of
                   None \<Rightarrow> disk w
                 | Some ed \<Rightarrow> (case fs_rename (disk w) p (ed, snd p) of Inl x \<Rightarrow> disk w | Inr d \<Rightarrow> d)))"
proof (cases "mailSender (self w)")
  case None
  then show ?thesis by (simp add: forward_def reject_log_def Let_def)
next
  case (Some s)
  let ?w1 = "emit (OnForwarding p) w"
  obtain r w2 where f: "forwardEml ev s p ?w1 = (r, w2)"
    by (cases "forwardEml ev s p ?w1")
  have w2: "self w2 = self w" "disk w2 = disk w" "renames (trace w2) = renames (trace w)"
    "unlinks (trace w2) = unlinks (trace w)"
    using forwardEml_self [of ev s p ?w1] forwardEml_disk [of ev s p ?w1]
      forwardEml_renames [of ev s p ?w1] forwardEml_unlinks [of ev s p ?w1] f
    by simp_all
  have "fst (forward ev p w) = r"
    using Some f by (simp add: forward_def Let_def split: sum.splits)
  then have r: "r = Inl err" using assms by simp
  have "snd (forward ev p w) =
          emit (OnError err) (moveToError p err (dlog ERROR (logMsg ''Not Forwarded '' (Some (inspect_error err))) w2))"
    using Some f r by (simp add: forward_def Let_def)
  then show ?thesis
    using Some w2
    by (simp add: moveToError_self moveToError_unlinks moveToError_renames moveToError_disk
        split: option.splits sum.splits)
qed

text \<open>
  C2, as the code has it: when \<open>forwardOne\<close> pops a name from the head of the parking queue
  and the forward of that file fails, it returns the error and appends the name to the
  tail of the queue; nothing else of the object changes, nothing is unlinked and nothing is
  moved to a backup directory.  The only rename is the one of the file from the parking
  directory to the error directory, and it is made when there is a sender and the error
  directory is available; it moves the file when the file is in the parking directory and
  the error directory is on disk.  Without a sender or without the error directory no
  rename is made and the disk stays as it is.  (Whether a forward fails depends on the
  sender and on the disk only, so the hypothesis speaks of the world before the call.)
\<close>

theorem forwardOne_failure:
  assumes "avail (emlParkingDir (self w)) = Some pd"
    and "emlParkingQueue (self w) = n # rest" and "n \<noteq> []"
    and "fst (forward ev (pd, n) w) = Inl err"
  shows "fst (forwardOne ev w) = RError err \<and>
         self (snd (forwardOne ev w)) = (self w)\<lparr>emlParkingQueue := rest @ [n]\<rparr> \<and>
         unlinks (trace (snd (forwardOne ev w))) = unlinks (trace w) \<and>
         renames (trace (snd (forwardOne ev w))) = renames (trace w) @
           (case mailSender (self w) of
              None \<Rightarrow> []
            | Some s \<Rightarrow> (case avail (emlErrorDir (self w)) of
                          None \<Rightarrow> []
                        | Some ed \<Rightarrow> [((pd, n), (ed, n))])) \<and>
         (mailSender (self w) = None \<or> avail (emlErrorDir (self w)) = None
            \<longrightarrow> disk (snd (forwardOne ev w)) = disk w) \<and>
         (\<forall>s ed bytes.
            mailSender (self w) = Some s \<and> avail (emlErrorDir (self w)) = Some ed \<and> ed \<noteq> pd \<and>
            lookupFile (disk w) (pd, n) = Some (File bytes) \<and> existsDir (disk w) ed \<and>
            lookupFile (disk w) (ed, n) \<noteq> Some Folder
            \<longrightarrow> lookupFile (disk (snd (forwardOne ev w))) (pd, n) = None \<and>
                lookupFile (disk (snd (forwardOne ev w))) (ed, n) = Some (File bytes))"
proof -
  let ?w2 = "dlog DEBUG (''Forwarding '' @ n) (w\<lparr>self := (self w)\<lparr>emlParkingQueue := rest\<rparr>\<rparr>)"
  have same: "mailSender (self ?w2) = mailSender (self w)" "disk ?w2 = disk w"
    "emlErrorDir (self ?w2) = emlErrorDir (self w)"
    by simp_all
  have fail: "fst (forward ev (pd, n) ?w2) = Inl err"
    using forward_result_cong [of ?w2 w ev "(pd, n)"] assms(4) same by simp
  note ff = forward_failure [OF fail]
  obtain w3 where f: "forward ev (pd, n) ?w2 = (Inl err, w3)"
    using fail by (cases "forward ev (pd, n) ?w2") auto
  have one: "forwardOne ev w =
      (RError err, w3\<lparr>self := (self w3)\<lparr>emlParkingQueue := emlParkingQueue (self w3) @ [n]\<rparr>\<rparr>)"
    using assms(1,2,3) f by (simp add: forwardOne_def Let_def)
  have w3: "self w3 = (self w)\<lparr>emlParkingQueue := rest\<rparr>"
    "unlinks (trace w3) = unlinks (trace w)"
    "renames (trace w3) = renames (trace w) @
           (case mailSender (self w) of
              None \<Rightarrow> []
            | Some s \<Rightarrow> (case avail (emlErrorDir (self w)) of
                          None \<Rightarrow> []
                        | Some ed \<Rightarrow> [((pd, n), (ed, n))]))"
    "disk w3 =
           (case mailSender (self w) of
              None \<Rightarrow> disk w
            | Some s \<Rightarrow>
                (case avail (emlErrorDir (self w)) of
                   None \<Rightarrow> disk w
                 | Some ed \<Rightarrow> (case fs_rename (disk w) (pd, n) (ed, n) of Inl x \<Rightarrow> disk w | Inr d \<Rightarrow> d)))"
    using ff f by (simp_all cong: option.case_cong sum.case_cong)
  have c1: "fst (forwardOne ev w) = RError err"
    using one by simp
  have c2: "self (snd (forwardOne ev w)) = (self w)\<lparr>emlParkingQueue := rest @ [n]\<rparr>"
    using one w3(1) by simp
  have c3: "unlinks (trace (snd (forwardOne ev w))) = unlinks (trace w)"
    using one w3(2) by simp
  have c4: "renames (trace (snd (forwardOne ev w))) = renames (trace w) @
           (case mailSender (self w) of
              None \<Rightarrow> []
            | Some s \<Rightarrow> (case avail (emlErrorDir (self w)) of
                          None \<Rightarrow> []
                        | Some ed \<Rightarrow> [((pd, n), (ed, n))]))"
    using one w3(3) by simp
  have d: "disk (snd (forwardOne ev w)) = disk w3"
    using one by simp
  have c5: "mailSender (self w) = None \<or> avail (emlErrorDir (self w)) = None
            \<longrightarrow> disk (snd (forwardOne ev w)) = disk w"
    using d w3(4) by (auto split: option.splits)
  have c6: "\<forall>s ed bytes.
            mailSender (self w) = Some s \<and> avail (emlErrorDir (self w)) = Some ed \<and> ed \<noteq> pd \<and>
            lookupFile (disk w) (pd, n) = Some (File bytes) \<and> existsDir (disk w) ed \<and>
            lookupFile (disk w) (ed, n) \<noteq> Some Folder
            \<longrightarrow> lookupFile (disk (snd (forwardOne ev w))) (pd, n) = None \<and>
                lookupFile (disk (snd (forwardOne ev w))) (ed, n) = Some (File bytes)"
  proof (intro allI impI)
    fix s ed bytes
    assume h: "mailSender (self w) = Some s \<and> avail (emlErrorDir (self w)) = Some ed \<and> ed \<noteq> pd \<and>
            lookupFile (disk w) (pd, n) = Some (File bytes) \<and> existsDir (disk w) ed \<and>
            lookupFile (disk w) (ed, n) \<noteq> Some Folder"
    then obtain fs' where m: "fs_rename (disk w) (pd, n) (ed, n) = Inr fs'"
      "lookupFile fs' (pd, n) = None" "lookupFile fs' (ed, n) = Some (File bytes)"
      using fs_rename_moves [of "disk w" pd n bytes ed] by auto
    have "disk (snd (forwardOne ev w)) = fs'"
      using d w3(4) h m(1) by simp
    then show "lookupFile (disk (snd (forwardOne ev w))) (pd, n) = None \<and>
                lookupFile (disk (snd (forwardOne ev w))) (ed, n) = Some (File bytes)"
      using m by simp
  qed
  show ?thesis
    by (intro conjI) (fact c1 c2 c3 c4 c5 c6)+
qed

theorem forwardOne_failure_witness:
  "fst (forwardOne rejecting busy) = RError (Error ''550 rejected'') \<and>
   emlParkingQueue (self (snd (forwardOne rejecting busy))) = [''n.eml'', ''m.eml''] \<and>
   unlinks (trace (snd (forwardOne rejecting busy))) = [] \<and>
   renames (trace (snd (forwardOne rejecting busy)))
     = [((''storage/eml-parking'', ''m.eml''), (''storage/eml-error'', ''m.eml''))] \<and>
   lookupFile (disk (snd (forwardOne rejecting busy))) (''storage/eml-parking'', ''m.eml'') = None \<and>
   lookupFile (disk (snd (forwardOne rejecting busy))) (''storage/eml-error'', ''m.eml'')
     = Some (File ''x'')"
proof -
  have h1: "avail (emlParkingDir (self busy)) = Some ''storage/eml-parking''"
    by (simp add: busy_def spool_def new_DRemailer_def avail_def)
  have h2: "emlParkingQueue (self busy) = ''m.eml'' # [''n.eml'']"
    by (simp add: busy_def spool_def new_DRemailer_def)
  have h3: "''m.eml'' \<noteq> []"
    by simp
  have h4: "fst (forward rejecting (''storage/eml-parking'', ''m.eml'') busy) = Inl (Error ''550 rejected'')"
    by code_simp
  have s: "mailSender (self busy) = Some \<lparr> sender_status = \<lparr> ready = True, message = ''Init SUCCESS'' \<rparr>,
                               transporter = True \<rparr>"
    "avail (emlErrorDir (self busy)) = Some ''storage/eml-error''"
    "trace busy = []"
    "lookupFile (disk busy) (''storage/eml-parking'', ''m.eml'') = Some (File ''x'')"
    "existsDir (disk busy) ''storage/eml-error''"
    "lookupFile (disk busy) (''storage/eml-error'', ''m.eml'') \<noteq> Some Folder"
    by (simp_all add: busy_def spool_def new_DRemailer_def avail_def spool_disk_def lookupFile_def
        existsDir_def)
  show ?thesis
    using forwardOne_failure [OF h1 h2 h3 h4] s by simp
qed

text \<open>
  C2 as stated fails: with the error directory unavailable, a message that the upstream
  refuses is queued again and the error is returned, but no rename is made: the file stays
  in the parking directory and the error directory stays empty.
\<close>

theorem forwardOne_failure_counterexample:
  "fst (forwardOne rejecting (busy\<lparr>self := (self busy)\<lparr>emlErrorDir := None\<rparr>\<rparr>))
     = RError (Error ''550 rejected'') \<and>
   submissions (trace (snd (forwardOne rejecting (busy\<lparr>self := (self busy)\<lparr>emlErrorDir := None\<rparr>\<rparr>))))
     = [\<lparr> mo_from = ''a@b.c'', mo_to = CString ''x@y.z'', mo_subject = Some ''hello'',
          mo_text = Some ''x'', mo_html = None, mo_attachments = [] \<rparr>] \<and>
   emlParkingQueue (self (snd (forwardOne rejecting (busy\<lparr>self := (self busy)\<lparr>emlErrorDir := None\<rparr>\<rparr>))))
     = [''n.eml'', ''m.eml''] \<and>
   renames (trace (snd (forwardOne rejecting (busy\<lparr>self := (self busy)\<lparr>emlErrorDir := None\<rparr>\<rparr>)))) = [] \<and>
   lookupFile (disk (snd (forwardOne rejecting (busy\<lparr>self := (self busy)\<lparr>emlErrorDir := None\<rparr>\<rparr>))))
       (''storage/eml-parking'', ''m.eml'') = Some (File ''x'') \<and>
   lookupFile (disk (snd (forwardOne rejecting (busy\<lparr>self := (self busy)\<lparr>emlErrorDir := None\<rparr>\<rparr>))))
       (''storage/eml-error'', ''m.eml'') = None"
  by code_simp

end
